theory Spec2Isabelle
  imports Complex_Main
begin

section \<open>Dates\<close>

text \<open>
  A \<^verbatim>\<open>datetime.date\<close> is represented by its proleptic Gregorian ordinal
  (\<^verbatim>\<open>date.toordinal()\<close>: 0001-01-01 is day 1, 9999-12-31 is day 3652059).
  The difference of two dates in days is the difference of the ordinals. The
  conversions between ordinals and (year, month, day) follow the algorithms of
  Python's \<^verbatim>\<open>datetime\<close> module (\<^verbatim>\<open>_ymd2ord\<close>, \<^verbatim>\<open>_ord2ymd\<close>).
\<close>

type_synonym date = int

datatype exn =
    BadRequestKeyError
  | DoesNotExist
  | ValueError
  | OverflowError
  | DatabaseError
  | ValidationError
  | KeyError

definition is_leap :: "int \<Rightarrow> bool" where
  "is_leap y = (y mod 4 = 0 \<and> (y mod 100 \<noteq> 0 \<or> y mod 400 = 0))"

definition days_before_year :: "int \<Rightarrow> int" where
  "days_before_year year =
     (let y = year - 1 in y * 365 + y div 4 - y div 100 + y div 400)"

fun DAYS_IN_MONTH :: "int \<Rightarrow> int" where
  "DAYS_IN_MONTH m =
     (if m = 2 then 28
      else if m = 4 \<or> m = 6 \<or> m = 9 \<or> m = 11 then 30
      else 31)"

fun DAYS_BEFORE_MONTH :: "int \<Rightarrow> int" where
  "DAYS_BEFORE_MONTH m =
     (if m = 1 then 0 else if m = 2 then 31 else if m = 3 then 59
      else if m = 4 then 90 else if m = 5 then 120 else if m = 6 then 151
      else if m = 7 then 181 else if m = 8 then 212 else if m = 9 then 243
      else if m = 10 then 273 else if m = 11 then 304 else 334)"

definition days_in_month :: "int \<Rightarrow> int \<Rightarrow> int" where
  "days_in_month year month =
     (if month = 2 \<and> is_leap year then 29 else DAYS_IN_MONTH month)"

definition days_before_month :: "int \<Rightarrow> int \<Rightarrow> int" where
  "days_before_month year month =
     DAYS_BEFORE_MONTH month + (if month > 2 \<and> is_leap year then 1 else 0)"

definition ymd2ord :: "int \<Rightarrow> int \<Rightarrow> int \<Rightarrow> date" where
  "ymd2ord year month day =
     days_before_year year + days_before_month year month + day"

definition ord2ymd :: "date \<Rightarrow> int \<times> int \<times> int" where
  "ord2ymd ordinal =
     (let n0 = ordinal - 1;
          n400 = n0 div 146097; n1 = n0 mod 146097;
          n100 = n1 div 36524; n2 = n1 mod 36524;
          n4 = n2 div 1461; n3 = n2 mod 1461;
          n1y = n3 div 365; n = n3 mod 365;
          year = n400 * 400 + 1 + n100 * 100 + n4 * 4 + n1y
      in if n1y = 4 \<or> n100 = 4 then (year - 1, 12, 31)
         else
           let leapyear = (n1y = 3 \<and> (n4 \<noteq> 24 \<or> n100 = 3));
               month = (n + 50) div 32;
               preceding = DAYS_BEFORE_MONTH month
                           + (if month > 2 \<and> leapyear then 1 else 0)
           in if preceding > n
              then
                let month' = month - 1;
                    preceding' = preceding
                       - (DAYS_IN_MONTH month'
                          + (if month' = 2 \<and> leapyear then 1 else 0))
                in (year, month', n - preceding' + 1)
              else (year, month, n - preceding + 1))"

definition MINORDINAL :: int where "MINORDINAL = 1"
definition MAXORDINAL :: int where "MAXORDINAL = 3652059"

text \<open>\<^verbatim>\<open>date(year, month, day)\<close>: the constructor raises ValueError outside the
  calendar.\<close>

definition mk_date :: "int \<Rightarrow> int \<Rightarrow> int \<Rightarrow> exn + date" where
  "mk_date year month day =
     (if 1 \<le> year \<and> year \<le> 9999 \<and> 1 \<le> month \<and> month \<le> 12
         \<and> 1 \<le> day \<and> day \<le> days_in_month year month
      then Inr (ymd2ord year month day) else Inl ValueError)"

text \<open>\<^verbatim>\<open>d + timedelta(days=n)\<close>: \<^verbatim>\<open>timedelta\<close> raises OverflowError beyond
  999999999 days, and the sum raises it outside the range of dates.\<close>

definition date_add :: "date \<Rightarrow> int \<Rightarrow> exn + date" where
  "date_add d n =
     (if \<bar>n\<bar> > 999999999 then Inl OverflowError
      else if d + n < MINORDINAL \<or> d + n > MAXORDINAL then Inl OverflowError
      else Inr (d + n))"

text \<open>\<^verbatim>\<open>d.replace(day=1)\<close>: the first day of the month of \<open>d\<close>.\<close>

definition replace_day1 :: "date \<Rightarrow> date" where
  "replace_day1 d = (case ord2ymd d of (y, m, _) \<Rightarrow> ymd2ord y m 1)"

section \<open>The store\<close>

text \<open>
  The two peewee models. \<open>eq_id\<close> and \<open>job_id\<close> are the implicit primary keys,
  \<open>job_equipment\<close> is the foreign key \<^verbatim>\<open>Job.equipment\<close>. Nullable columns are
  options. \<open>budget\<close> is a \<^verbatim>\<open>FloatField\<close>; it is kept as a real number.
\<close>

record equipment =
  eq_id :: int
  marca :: string
  modelo :: string
  anio :: int
  n_serie :: string
  propietario :: "string option"
  vehiculo :: "string option"
  dominio :: "string option"
  eq_notes :: "string option"

record job =
  job_id :: int
  job_equipment :: int
  date_done :: date
  description :: string
  budget :: real
  next_service_days :: "int option"
  next_service_date :: "date option"
  job_notes :: "string option"

text \<open>
  The database holds the rows of both tables in storage order. \<open>connected\<close> is
  False for a store whose queries raise (peewee raises a database error from
  every query on a closed or locked database); such a store fails at the
  first query of a request, so the first query of every function is the one
  written as fallible.
\<close>

record database =
  equipment_rows :: "equipment list"
  job_rows :: "job list"
  connected :: bool

definition Equipment_select :: "database \<Rightarrow> exn + equipment list" where
  "Equipment_select db =
     (if connected db then Inr (equipment_rows db) else Inl DatabaseError)"

definition Job_select :: "database \<Rightarrow> exn + job list" where
  "Job_select db =
     (if connected db then Inr (job_rows db) else Inl DatabaseError)"

text \<open>\<^verbatim>\<open>Job.select().where(Job.equipment == eq)\<close>\<close>

definition jobs_of :: "database \<Rightarrow> equipment \<Rightarrow> job list" where
  "jobs_of db eq = filter (\<lambda>j. job_equipment j = eq_id eq) (job_rows db)"

text \<open>\<^verbatim>\<open>.order_by(Job.date_done.desc())\<close>: rows of equal date keep their storage
  order (the database leaves the order of ties open; the sort here is the
  stable one).\<close>

definition order_by_date_done_desc :: "job list \<Rightarrow> job list" where
  "order_by_date_done_desc js = sort_key (\<lambda>j. - date_done j) js"

text \<open>\<^verbatim>\<open>.first()\<close>\<close>

definition first :: "'a list \<Rightarrow> 'a option" where
  "first xs = (case xs of [] \<Rightarrow> None | x # _ \<Rightarrow> Some x)"

definition last_job_of :: "database \<Rightarrow> equipment \<Rightarrow> job option" where
  "last_job_of db eq = first (order_by_date_done_desc (jobs_of db eq))"

section \<open>Upcoming services\<close>

text \<open>\<^verbatim>\<open>str(n)\<close> for an integer, used by the f-string of the equipment label.\<close>

fun str_nat :: "nat \<Rightarrow> string" where
  "str_nat n =
     (if n < 10 then [char_of (48 + n)]
      else str_nat (n div 10) @ [char_of (48 + n mod 10)])"

definition str_int :: "int \<Rightarrow> string" where
  "str_int i = (if i < 0 then CHR ''-'' # str_nat (nat (- i)) else str_nat (nat i))"

text \<open>
  One entry of the list \<^verbatim>\<open>upcoming_services\<close>. \<open>fr_date\<close> is the next service
  date of the row; the source stores it rendered as day/month/year.
\<close>

record forecast_row =
  fr_equipment :: string
  fr_propietario :: "string option"
  fr_date :: date
  days_left :: int
  fr_budget :: real
  status :: string

record upcoming_result =
  upcoming_services :: "forecast_row list"
  total_upcoming :: nat
  services_vencidos :: nat

definition status_of :: "int \<Rightarrow> string" where
  "status_of d =
     (if d < 0 then ''danger'' else if d < 7 then ''warning'' else ''success'')"

definition mk_row :: "date \<Rightarrow> equipment \<Rightarrow> job \<Rightarrow> date \<Rightarrow> forecast_row" where
  "mk_row today eq last_job nsd =
     \<lparr> fr_equipment = marca eq @ '' '' @ modelo eq @ '' ('' @ str_int (anio eq) @ '')'',
       fr_propietario = propietario eq,
       fr_date = nsd,
       days_left = nsd - today,
       fr_budget = budget last_job,
       status = status_of (nsd - today) \<rparr>"

text \<open>The body of the loop \<^verbatim>\<open>for eq in Equipment.select()\<close>, one equipment at a
  time, on the three accumulators.\<close>

fun upcoming_loop ::
  "date \<Rightarrow> database \<Rightarrow> equipment list \<Rightarrow> upcoming_result \<Rightarrow> upcoming_result" where
  "upcoming_loop today db [] acc = acc"
| "upcoming_loop today db (eq # eqs) acc =
     (case last_job_of db eq of
        None \<Rightarrow> upcoming_loop today db eqs acc
      | Some last_job \<Rightarrow>
          (case next_service_date last_job of
             None \<Rightarrow> upcoming_loop today db eqs acc
           | Some nsd \<Rightarrow>
               (let d = nsd - today
                in upcoming_loop today db eqs
                     \<lparr> upcoming_services =
                         upcoming_services acc @ [mk_row today eq last_job nsd],
                       total_upcoming =
                         (if d \<le> 30 then total_upcoming acc + 1 else total_upcoming acc),
                       services_vencidos =
                         (if d < 0 then services_vencidos acc + 1
                          else services_vencidos acc) \<rparr>)))"

definition empty_upcoming :: upcoming_result where
  "empty_upcoming = \<lparr> upcoming_services = [], total_upcoming = 0, services_vencidos = 0 \<rparr>"

text \<open>
  The function under the decorator: the \<^verbatim>\<open>try\<close> block, and the \<^verbatim>\<open>except\<close>
  branch that returns the empty result. \<open>upcoming_try\<close> is the block, with the
  exception it raises or the dictionary it returns.
\<close>

definition upcoming_try :: "date \<Rightarrow> database \<Rightarrow> exn + upcoming_result" where
  "upcoming_try today db =
     (case Equipment_select db of
        Inl e \<Rightarrow> Inl e
      | Inr eqs \<Rightarrow>
          (let acc = upcoming_loop today db eqs empty_upcoming
           in Inr (acc \<lparr> upcoming_services :=
                          sort_key days_left (upcoming_services acc) \<rparr>)))"

definition upcoming_services_body :: "date \<Rightarrow> database \<Rightarrow> upcoming_result" where
  "upcoming_services_body today db =
     (case upcoming_try today db of
        Inl e \<Rightarrow> empty_upcoming
      | Inr r \<Rightarrow> r)"

section \<open>The cache\<close>

text \<open>
  The keys and values of the cache of \<^verbatim>\<open>flask_caching\<close>. The memoized
  functions have no arguments, so each has one key; the key of a cached view
  is \<^verbatim>\<open>view/\<close> followed by the request path, which makes \<^verbatim>\<open>view//\<close> the
  key of the dashboard.
\<close>

datatype cache_key =
    Memo_equipment_count
  | Memo_jobs_count
  | Memo_upcoming_services
  | Memo_equipment_autocomplete
  | View string

record autocomplete_result =
  marcas :: "string list"
  modelos :: "string list"
  propietarios :: "string list"

datatype cache_value =
    V_count nat
  | V_upcoming upcoming_result
  | V_autocomplete autocomplete_result
  | V_page string

text \<open>
  Modelled from the spec: the cache backend, which the configuration module
  selects and which is not among the sources. A cache entry is a value with
  the time at which it expires; a lookup is a hit when the key exists and the
  current time is before that time; a stored result expires at the current
  time plus the timeout; a deletion has immediate effect.
  \<^verbatim>\<open>delete_memoized\<close> makes the entry of a function unreachable, which is
  written as deleting it.
\<close>

type_synonym cache = "cache_key \<rightharpoonup> cache_value \<times> int"

definition cache_get :: "int \<Rightarrow> cache \<Rightarrow> cache_key \<Rightarrow> cache_value option" where
  "cache_get now c k =
     (case c k of
        None \<Rightarrow> None
      | Some (v, expires_at) \<Rightarrow> (if now < expires_at then Some v else None))"

definition cache_set :: "int \<Rightarrow> cache \<Rightarrow> cache_key \<Rightarrow> cache_value \<Rightarrow> int \<Rightarrow> cache" where
  "cache_set now c k v timeout = c(k \<mapsto> (v, now + timeout))"

definition cache_delete :: "cache \<Rightarrow> cache_key \<Rightarrow> cache" where
  "cache_delete c k = c(k := None)"

text \<open>
  \<^verbatim>\<open>@cache.memoize(timeout=...)\<close> around a function without arguments: a hit
  returns the stored value; a miss runs the function, stores whatever it
  returns and returns it; an exception of the function leaves the cache as it
  was. The argument \<open>f\<close> is the outcome of the decorated function.
\<close>

definition memoize ::
  "cache_key \<Rightarrow> int \<Rightarrow> int \<Rightarrow> (exn + cache_value) \<Rightarrow> cache \<Rightarrow> (exn + cache_value) \<times> cache" where
  "memoize key timeout now f c =
     (case cache_get now c key of
        Some v \<Rightarrow> (Inr v, c)
      | None \<Rightarrow>
          (case f of
             Inl e \<Rightarrow> (Inl e, c)
           | Inr rv \<Rightarrow> (Inr rv, cache_set now c key rv timeout)))"

record app =
  db :: database
  cache :: cache

definition get_cached_equipment_count :: "int \<Rightarrow> app \<Rightarrow> (exn + cache_value) \<times> app" where
  "get_cached_equipment_count now st =
     (case memoize Memo_equipment_count 600 now
             (case Equipment_select (db st) of
                Inl e \<Rightarrow> Inl e
              | Inr eqs \<Rightarrow> Inr (V_count (length eqs)))
             (cache st) of
        (r, c) \<Rightarrow> (r, st \<lparr> cache := c \<rparr>))"

definition get_cached_jobs_count :: "int \<Rightarrow> app \<Rightarrow> (exn + cache_value) \<times> app" where
  "get_cached_jobs_count now st =
     (case memoize Memo_jobs_count 600 now
             (case Job_select (db st) of
                Inl e \<Rightarrow> Inl e
              | Inr js \<Rightarrow> Inr (V_count (length js)))
             (cache st) of
        (r, c) \<Rightarrow> (r, st \<lparr> cache := c \<rparr>))"

definition get_cached_upcoming_services ::
  "int \<Rightarrow> date \<Rightarrow> app \<Rightarrow> (exn + cache_value) \<times> app" where
  "get_cached_upcoming_services now today st =
     (case memoize Memo_upcoming_services 300 now
             (Inr (V_upcoming (upcoming_services_body today (db st))))
             (cache st) of
        (r, c) \<Rightarrow> (r, st \<lparr> cache := c \<rparr>))"

text \<open>
  The autocomplete vocabulary. \<^verbatim>\<open>list(set(...))\<close> drops duplicates and fixes
  no order; the order of first occurrence is used here. The owners are those
  that are neither NULL nor the empty string.
\<close>

definition autocomplete_try :: "database \<Rightarrow> exn + autocomplete_result" where
  "autocomplete_try d =
     (case Equipment_select d of
        Inl e \<Rightarrow> Inl e
      | Inr eqs \<Rightarrow>
          Inr \<lparr> marcas = remdups (map marca eqs),
                modelos = remdups (map modelo eqs),
                propietarios =
                  remdups (List.map_filter
                    (\<lambda>eq. case propietario eq of
                            None \<Rightarrow> None
                          | Some p \<Rightarrow> (if p = [] then None else Some p)) eqs) \<rparr>)"

definition empty_autocomplete :: autocomplete_result where
  "empty_autocomplete = \<lparr> marcas = [], modelos = [], propietarios = [] \<rparr>"

definition equipment_autocomplete_body :: "database \<Rightarrow> autocomplete_result" where
  "equipment_autocomplete_body d =
     (case autocomplete_try d of
        Inl e \<Rightarrow> empty_autocomplete
      | Inr r \<Rightarrow> r)"

definition get_cached_equipment_autocomplete ::
  "int \<Rightarrow> app \<Rightarrow> (exn + cache_value) \<times> app" where
  "get_cached_equipment_autocomplete now st =
     (case memoize Memo_equipment_autocomplete 1800 now
             (Inr (V_autocomplete (equipment_autocomplete_body (db st))))
             (cache st) of
        (r, c) \<Rightarrow> (r, st \<lparr> cache := c \<rparr>))"

definition clear_cache_on_equipment_change :: "cache \<Rightarrow> cache" where
  "clear_cache_on_equipment_change c =
     cache_delete
       (cache_delete
          (cache_delete
             (cache_delete c Memo_equipment_count)
             Memo_equipment_autocomplete)
          Memo_upcoming_services)
       (View ''/'')"

definition clear_cache_on_job_change :: "cache \<Rightarrow> cache" where
  "clear_cache_on_job_change c =
     cache_delete
       (cache_delete
          (cache_delete c Memo_jobs_count)
          Memo_upcoming_services)
       (View ''/'')"

section \<open>Requests\<close>

text \<open>
  A submitted form is a map from field names to strings. A character is a
  code point below 256. \<open>strip\<close> is \<^verbatim>\<open>str.strip()\<close>, which removes the
  characters for which \<^verbatim>\<open>str.isspace()\<close> holds from both ends.
\<close>

type_synonym form = "string \<rightharpoonup> string"

datatype http_method = GET | POST

definition isspace :: "char \<Rightarrow> bool" where
  "isspace c =
     (let n = (of_char c :: nat)
      in (9 \<le> n \<and> n \<le> 13) \<or> (28 \<le> n \<and> n \<le> 32) \<or> n = 133 \<or> n = 160)"

definition strip :: "string \<Rightarrow> string" where
  "strip s = rev (dropWhile isspace (rev (dropWhile isspace s)))"

text \<open>\<^verbatim>\<open>request.form.get(key, default)\<close>\<close>

definition form_get :: "form \<Rightarrow> string \<Rightarrow> string \<Rightarrow> string" where
  "form_get f k dflt = (case f k of None \<Rightarrow> dflt | Some v \<Rightarrow> v)"

text \<open>
  What a view function answers: the flashed messages with their categories,
  and a redirect, a rendered template or an error status. The messages are
  named after the text the source flashes.
\<close>

datatype flash_message =
    Nombre_requerido
  | Nombre_no_ha_cambiado
  | Ya_existe_cliente
  | Cliente_actualizado nat
  | Cliente_no_encontrado
  | Error_procesando_solicitud
  | Equipo_no_encontrado
  | Fecha_futura
  | Error_de_validacion
  | Error_de_formato
  | Error_interno
  | Trabajo_registrado

datatype target =
    To_cliente_edit string
  | To_cliente_detail string
  | To_clientes_list
  | To_equipos_list
  | To_equipo_detail int
  | To_trabajos_list

datatype answer =
    Redirect target
  | Render string
  | Abort nat

type_synonym response = "(flash_message \<times> string) list \<times> answer"

section \<open>Renaming an owner\<close>

text \<open>\<^verbatim>\<open>Equipment.update(propietario=nuevo).where(Equipment.propietario == nombre)\<close>
  and the number of rows it reports.\<close>

definition update_propietario :: "string \<Rightarrow> string \<Rightarrow> equipment list \<Rightarrow> equipment list" where
  "update_propietario nuevo nombre rows =
     map (\<lambda>eq. if propietario eq = Some nombre then eq \<lparr> propietario := Some nuevo \<rparr> else eq) rows"

definition rows_with_owner :: "string \<Rightarrow> equipment list \<Rightarrow> equipment list" where
  "rows_with_owner name rows = filter (\<lambda>eq. propietario eq = Some name) rows"

definition cliente_edit :: "http_method \<Rightarrow> string \<Rightarrow> form \<Rightarrow> app \<Rightarrow> response \<times> app" where
  "cliente_edit method nombre f st =
     (if method = POST then
        (let nuevo_nombre = strip (form_get f ''nuevo_nombre'' '''')
         in if nuevo_nombre = [] then
              (([(Nombre_requerido, ''error'')], Redirect (To_cliente_edit nombre)), st)
            else if nuevo_nombre = nombre then
              (([(Nombre_no_ha_cambiado, ''info'')], Redirect (To_cliente_detail nombre)), st)
            else
              (case Equipment_select (db st) of
                 Inl e \<Rightarrow>
                   (([(Error_procesando_solicitud, ''error'')], Redirect To_clientes_list), st)
               | Inr rows \<Rightarrow>
                   if rows_with_owner nuevo_nombre rows \<noteq> [] then
                     (([(Ya_existe_cliente, ''error'')], Redirect (To_cliente_edit nombre)), st)
                   else
                     (let equipos_actualizados = length (rows_with_owner nombre rows);
                          db' = (db st) \<lparr> equipment_rows :=
                                   update_propietario nuevo_nombre nombre rows \<rparr>
                      in (([(Cliente_actualizado equipos_actualizados, ''success'')],
                           Redirect (To_cliente_detail nuevo_nombre)),
                          \<lparr> db = db', cache = clear_cache_on_equipment_change (cache st) \<rparr>))))
      else
        (case Equipment_select (db st) of
           Inl e \<Rightarrow>
             (([(Error_procesando_solicitud, ''error'')], Redirect To_clientes_list), st)
         | Inr rows \<Rightarrow>
             if rows_with_owner nombre rows = [] then
               (([(Cliente_no_encontrado, ''error'')], Redirect To_clientes_list), st)
             else (([], Render ''cliente_edit.html''), st)))"

section \<open>Parsing submitted values\<close>

text \<open>
  \<^verbatim>\<open>int(s)\<close> on a string: white space at both ends is dropped, a sign may come
  first, and the digits may be grouped by single underscores. On a string of
  ASCII characters the white space that \<^verbatim>\<open>int\<close> skips is the one of C (tab,
  newline, vertical tab, form feed, carriage return, space), so the
  separators 28 to 31 are refused there; a string with a character beyond
  ASCII first has every character of \<^verbatim>\<open>str.isspace()\<close> turned into a space.
  (The limit of the interpreter on the number of digits is left out; such
  numbers are refused by \<^verbatim>\<open>timedelta\<close> in any case.)
\<close>

definition c_isspace :: "char \<Rightarrow> bool" where
  "c_isspace c = (let n = (of_char c :: nat) in (9 \<le> n \<and> n \<le> 13) \<or> n = 32)"

definition int_strip :: "string \<Rightarrow> string" where
  "int_strip s =
     (if list_all (\<lambda>c. (of_char c :: nat) < 128) s
      then rev (dropWhile c_isspace (rev (dropWhile c_isspace s)))
      else strip s)"

definition is_digit :: "char \<Rightarrow> bool" where
  "is_digit c = (48 \<le> (of_char c :: nat) \<and> (of_char c :: nat) \<le> 57)"

definition digit_val :: "char \<Rightarrow> int" where
  "digit_val c = int (of_char c) - 48"

fun int_digits :: "string \<Rightarrow> int \<Rightarrow> int option" where
  "int_digits [] acc = Some acc"
| "int_digits (c # cs) acc =
     (if is_digit c then int_digits cs (acc * 10 + digit_val c)
      else if c = CHR ''_'' then
        (case cs of
           [] \<Rightarrow> None
         | d # ds \<Rightarrow>
             if is_digit d then int_digits ds (acc * 10 + digit_val d) else None)
      else None)"

definition unsigned_int :: "string \<Rightarrow> int option" where
  "unsigned_int s =
     (case s of
        [] \<Rightarrow> None
      | d # ds \<Rightarrow> if is_digit d then int_digits ds (digit_val d) else None)"

definition py_int :: "string \<Rightarrow> exn + int" where
  "py_int s =
     (case int_strip s of
        [] \<Rightarrow> Inl ValueError
      | c # cs \<Rightarrow>
          (case (if c = CHR ''-'' then map_option uminus (unsigned_int cs)
                 else if c = CHR ''+'' then unsigned_int cs
                 else unsigned_int (c # cs)) of
             None \<Rightarrow> Inl ValueError
           | Some n \<Rightarrow> Inr n))"

text \<open>
  \<^verbatim>\<open>datetime.strptime(s, '%Y-%m-%d').date()\<close>: four digits of year, a month
  and a day as the directives read them (the first alternative that matches,
  in the order \<^verbatim>\<open>1[0-2]|0[1-9]|[1-9]\<close> for the month and
  \<^verbatim>\<open>3[01]|[12]\d|0[1-9]|[1-9]| [1-9]\<close> for the day), nothing after the day,
  and a date of the calendar.
\<close>

definition parse_year :: "string \<Rightarrow> (int \<times> string) option" where
  "parse_year s =
     (case s of
        a # b # c # d # r \<Rightarrow>
          if is_digit a \<and> is_digit b \<and> is_digit c \<and> is_digit d
          then Some (1000 * digit_val a + 100 * digit_val b + 10 * digit_val c + digit_val d, r)
          else None
      | _ \<Rightarrow> None)"

definition expect_dash :: "string \<Rightarrow> string option" where
  "expect_dash s = (case s of [] \<Rightarrow> None | c # r \<Rightarrow> if c = CHR ''-'' then Some r else None)"

definition one_to_nine :: "char \<Rightarrow> bool" where
  "one_to_nine c = (is_digit c \<and> c \<noteq> CHR ''0'')"

definition parse_month :: "string \<Rightarrow> (int \<times> string) option" where
  "parse_month s =
     (case s of
        [] \<Rightarrow> None
      | a # r \<Rightarrow>
          (case r of
             [] \<Rightarrow> if one_to_nine a then Some (digit_val a, []) else None
           | b # r' \<Rightarrow>
               if a = CHR ''1'' \<and> (b = CHR ''0'' \<or> b = CHR ''1'' \<or> b = CHR ''2'')
               then Some (10 + digit_val b, r')
               else if a = CHR ''0'' \<and> one_to_nine b then Some (digit_val b, r')
               else if one_to_nine a then Some (digit_val a, r)
               else None))"

definition parse_day :: "string \<Rightarrow> (int \<times> string) option" where
  "parse_day s =
     (case s of
        [] \<Rightarrow> None
      | a # r \<Rightarrow>
          (case r of
             [] \<Rightarrow> if one_to_nine a then Some (digit_val a, []) else None
           | b # r' \<Rightarrow>
               if a = CHR ''3'' \<and> (b = CHR ''0'' \<or> b = CHR ''1'')
               then Some (30 + digit_val b, r')
               else if (a = CHR ''1'' \<or> a = CHR ''2'') \<and> is_digit b
               then Some (10 * digit_val a + digit_val b, r')
               else if a = CHR ''0'' \<and> one_to_nine b then Some (digit_val b, r')
               else if one_to_nine a then Some (digit_val a, r)
               else if a = CHR '' '' \<and> one_to_nine b then Some (digit_val b, r')
               else None))"

definition bind_exn :: "exn + 'a \<Rightarrow> ('a \<Rightarrow> exn + 'b) \<Rightarrow> exn + 'b" where
  "bind_exn x f = (case x of Inl e \<Rightarrow> Inl e | Inr v \<Rightarrow> f v)"

definition or_raise :: "exn \<Rightarrow> 'a option \<Rightarrow> exn + 'a" where
  "or_raise e x = (case x of None \<Rightarrow> Inl e | Some v \<Rightarrow> Inr v)"

definition strptime_ymd :: "string \<Rightarrow> exn + date" where
  "strptime_ymd s =
     bind_exn (or_raise ValueError (parse_year s)) (\<lambda>(y, r1).
     bind_exn (or_raise ValueError (expect_dash r1)) (\<lambda>r2.
     bind_exn (or_raise ValueError (parse_month r2)) (\<lambda>(m, r3).
     bind_exn (or_raise ValueError (expect_dash r3)) (\<lambda>r4.
     bind_exn (or_raise ValueError (parse_day r4)) (\<lambda>(d, r5).
     if r5 \<noteq> [] then Inl ValueError else mk_date y m d)))))"

text \<open>
  Two parts of the platform are parameters: \<^verbatim>\<open>float(s)\<close>, whose values are
  floating-point numbers, and what the database equates a submitted text with
  when \<^verbatim>\<open>int\<close> refuses it (peewee hands such a text to the database as it
  is).
\<close>

record platform =
  py_float :: "string \<Rightarrow> exn + real"
  sqlite_numeric :: "string \<Rightarrow> int option"

section \<open>Queries and writes on jobs\<close>

text \<open>An integer handed to the database as a parameter has to fit 64 bits;
  the driver raises OverflowError otherwise.\<close>

definition fits_int64 :: "int \<Rightarrow> bool" where
  "fits_int64 i = (- (2 ^ 63) \<le> i \<and> i < 2 ^ 63)"

definition Equipment_get_by_id :: "database \<Rightarrow> int \<Rightarrow> exn + equipment" where
  "Equipment_get_by_id d i =
     (if \<not> connected d then Inl DatabaseError
      else if \<not> fits_int64 i then Inl OverflowError
      else or_raise DoesNotExist (find (\<lambda>e. eq_id e = i) (equipment_rows d)))"

text \<open>\<^verbatim>\<open>Equipment.get_by_id\<close> on the text of a form field.\<close>

definition Equipment_get_by_text :: "platform \<Rightarrow> database \<Rightarrow> string \<Rightarrow> exn + equipment" where
  "Equipment_get_by_text pf d s =
     (case py_int s of
        Inr i \<Rightarrow> Equipment_get_by_id d i
      | Inl e \<Rightarrow>
          (case sqlite_numeric pf s of
             None \<Rightarrow> (if connected d then Inl DoesNotExist else Inl DatabaseError)
           | Some i \<Rightarrow> Equipment_get_by_id d i))"

definition Job_get_by_id :: "database \<Rightarrow> int \<Rightarrow> exn + job" where
  "Job_get_by_id d i =
     (if \<not> connected d then Inl DatabaseError
      else if \<not> fits_int64 i then Inl OverflowError
      else or_raise DoesNotExist (find (\<lambda>j. job_id j = i) (job_rows d)))"

text \<open>The id of a new row: one more than the greatest id of the table.\<close>

definition new_job_id :: "database \<Rightarrow> int" where
  "new_job_id d = fold max (map job_id (job_rows d)) 0 + 1"

text \<open>\<^verbatim>\<open>Job.create(...)\<close>, \<^verbatim>\<open>trabajo.save()\<close> and
  \<^verbatim>\<open>trabajo.delete_instance()\<close>.\<close>

definition Job_create :: "database \<Rightarrow> job \<Rightarrow> database" where
  "Job_create d j = d \<lparr> job_rows := job_rows d @ [j \<lparr> job_id := new_job_id d \<rparr>] \<rparr>"

definition Job_save :: "database \<Rightarrow> job \<Rightarrow> database" where
  "Job_save d j = d \<lparr> job_rows := map (\<lambda>r. if job_id r = job_id j then j else r) (job_rows d) \<rparr>"

definition Job_delete_instance :: "database \<Rightarrow> job \<Rightarrow> database" where
  "Job_delete_instance d j = d \<lparr> job_rows := filter (\<lambda>r. job_id r \<noteq> job_id j) (job_rows d) \<rparr>"

section \<open>The job endpoints\<close>

text \<open>\<^verbatim>\<open>request.form[key]\<close> raises the error of a bad request on a missing key.\<close>

definition form_item :: "form \<Rightarrow> string \<Rightarrow> exn + string" where
  "form_item f k = or_raise BadRequestKeyError (f k)"

text \<open>\<^verbatim>\<open>int(form['next_service_days']) if form.get('next_service_days') else None\<close>\<close>

definition next_days_of :: "string option \<Rightarrow> exn + int option" where
  "next_days_of v =
     (case v of
        None \<Rightarrow> Inr None
      | Some s \<Rightarrow> if s = [] then Inr None else bind_exn (py_int s) (\<lambda>n. Inr (Some n)))"

text \<open>\<^verbatim>\<open>date_done + timedelta(days=next_days) if next_days else None\<close>: the test
  is the truth value of \<^verbatim>\<open>next_days\<close>, which is false for \<^verbatim>\<open>None\<close> and for 0.\<close>

definition next_date_of :: "date \<Rightarrow> int option \<Rightarrow> exn + date option" where
  "next_date_of date_done' next_days =
     (case next_days of
        None \<Rightarrow> Inr None
      | Some n \<Rightarrow>
          if n = 0 then Inr None
          else bind_exn (date_add date_done' n) (\<lambda>d. Inr (Some d)))"

text \<open>\<^verbatim>\<open>float(request.form.get('budget', 0))\<close>\<close>

definition budget_of :: "platform \<Rightarrow> string option \<Rightarrow> exn + real" where
  "budget_of pf v = (case v of None \<Rightarrow> Inr 0 | Some s \<Rightarrow> py_float pf s)"

text \<open>\<^verbatim>\<open>request.form.get('notes') or None\<close>\<close>

definition notes_of :: "string option \<Rightarrow> string option" where
  "notes_of v = (case v of None \<Rightarrow> None | Some s \<Rightarrow> if s = [] then None else Some s)"

text \<open>An exception that no handler catches: the error of a bad request is
  answered with status 400, any other with status 500. The state is the one
  before the request.\<close>

definition uncaught :: "exn \<Rightarrow> app \<Rightarrow> response \<times> app" where
  "uncaught e st = (([], Abort (if e = BadRequestKeyError then 400 else 500)), st)"

text \<open>The row that \<^verbatim>\<open>trabajo_new_global\<close> hands to \<^verbatim>\<open>Job.create\<close>, in the
  order in which the source reads and converts the fields.\<close>

definition trabajo_new_global_job :: "platform \<Rightarrow> database \<Rightarrow> form \<Rightarrow> exn + job" where
  "trabajo_new_global_job pf d f =
     bind_exn (form_item f ''equipo_id'') (\<lambda>equipo_id.
     bind_exn (Equipment_get_by_text pf d equipo_id) (\<lambda>equipo.
     bind_exn (form_item f ''date_done'') (\<lambda>ds.
     bind_exn (strptime_ymd ds) (\<lambda>date_done'.
     bind_exn (next_days_of (f ''next_service_days'')) (\<lambda>next_days.
     bind_exn (next_date_of date_done' next_days) (\<lambda>next_date.
     bind_exn (form_item f ''description'') (\<lambda>description'.
     bind_exn (budget_of pf (f ''budget'')) (\<lambda>budget'.
     Inr \<lparr> job_id = 0, job_equipment = eq_id equipo, date_done = date_done',
           description = description', budget = budget',
           next_service_days = next_days, next_service_date = next_date,
           job_notes = notes_of (f ''notes'') \<rparr>))))))))"

definition trabajo_new_global :: "platform \<Rightarrow> http_method \<Rightarrow> form \<Rightarrow> app \<Rightarrow> response \<times> app" where
  "trabajo_new_global pf method f st =
     (if method = POST then
        (case trabajo_new_global_job pf (db st) f of
           Inl e \<Rightarrow> uncaught e st
         | Inr j \<Rightarrow>
             (([], Redirect To_trabajos_list), st \<lparr> db := Job_create (db st) j \<rparr>))
      else
        (case Equipment_select (db st) of
           Inl e \<Rightarrow> uncaught e st
         | Inr rows \<Rightarrow> (([], Render ''trabajo_form_global.html''), st)))"

text \<open>
  \<^verbatim>\<open>trabajo_new\<close>. The validator \<^verbatim>\<open>validate_job_data\<close> is a parameter: it
  takes the dictionary of the stripped fields and returns the validated one
  or raises. The \<^verbatim>\<open>try\<close> block yields the messages flashed inside it and
  the row or the exception.
\<close>

definition form_data :: "form \<Rightarrow> form" where
  "form_data f =
     [''date_done'' \<mapsto> strip (form_get f ''date_done'' ''''),
      ''description'' \<mapsto> strip (form_get f ''description'' ''''),
      ''budget'' \<mapsto> strip (form_get f ''budget'' ''0''),
      ''next_service_days'' \<mapsto> strip (form_get f ''next_service_days'' ''''),
      ''notes'' \<mapsto> strip (form_get f ''notes'' '''')]"

definition dict_item :: "form \<Rightarrow> string \<Rightarrow> exn + string" where
  "dict_item vd k = or_raise KeyError (vd k)"

definition validated_budget :: "platform \<Rightarrow> string option \<Rightarrow> exn + real" where
  "validated_budget pf v =
     (case v of None \<Rightarrow> Inr 0 | Some s \<Rightarrow> if s = [] then Inr 0 else py_float pf s)"

definition trabajo_new_try ::
  "platform \<Rightarrow> (form \<Rightarrow> exn + form) \<Rightarrow> date \<Rightarrow> equipment \<Rightarrow> form
     \<Rightarrow> (flash_message \<times> string) list \<times> (exn + job)" where
  "trabajo_new_try pf validate_job_data today equipo f =
     (case bind_exn (validate_job_data (form_data f)) (\<lambda>validated_data.
           bind_exn (dict_item validated_data ''date_done'') (\<lambda>ds.
           bind_exn (strptime_ymd ds) (\<lambda>date_done'. Inr (validated_data, date_done')))) of
        Inl e \<Rightarrow> ([], Inl e)
      | Inr (validated_data, date_done') \<Rightarrow>
          if date_done' > today then ([(Fecha_futura, ''error'')], Inl ValidationError)
          else
            ([],
             bind_exn (next_days_of (validated_data ''next_service_days'')) (\<lambda>next_days.
             bind_exn (next_date_of date_done' next_days) (\<lambda>next_date.
             bind_exn (validated_budget pf (validated_data ''budget'')) (\<lambda>budget'.
             bind_exn (dict_item validated_data ''description'') (\<lambda>description'.
             bind_exn (dict_item validated_data ''notes'') (\<lambda>notes.
             Inr \<lparr> job_id = 0, job_equipment = eq_id equipo, date_done = date_done',
                   description = description', budget = budget',
                   next_service_days = next_days, next_service_date = next_date,
                   job_notes = (if notes = [] then None else Some notes) \<rparr>)))))))"

definition trabajo_new ::
  "platform \<Rightarrow> (form \<Rightarrow> exn + form) \<Rightarrow> date \<Rightarrow> http_method \<Rightarrow> int \<Rightarrow> form \<Rightarrow> app
     \<Rightarrow> response \<times> app" where
  "trabajo_new pf validate_job_data today method equipo_id f st =
     (case Equipment_get_by_id (db st) equipo_id of
        Inl e \<Rightarrow>
          if e = DoesNotExist
          then (([(Equipo_no_encontrado, ''error'')], Redirect To_equipos_list), st)
          else uncaught e st
      | Inr equipo \<Rightarrow>
          if method = POST then
            (case trabajo_new_try pf validate_job_data today equipo f of
               (flashed, Inr j) \<Rightarrow>
                 ((flashed @ [(Trabajo_registrado, ''success'')],
                   Redirect (To_equipo_detail equipo_id)),
                  st \<lparr> db := Job_create (db st) j \<rparr>)
             | (flashed, Inl e) \<Rightarrow>
                 ((flashed @
                     [(if e = ValidationError then Error_de_validacion
                       else if e = ValueError then Error_de_formato
                       else Error_interno, ''error'')],
                   Render ''trabajo_form.html''), st))
          else (([], Render ''trabajo_form.html''), st))"

text \<open>The row that \<^verbatim>\<open>trabajo_edit\<close> saves, from the stored row and the form.\<close>

definition trabajo_edit_job :: "platform \<Rightarrow> job \<Rightarrow> form \<Rightarrow> exn + job" where
  "trabajo_edit_job pf trabajo f =
     bind_exn (form_item f ''date_done'') (\<lambda>ds.
     bind_exn (strptime_ymd ds) (\<lambda>date_done'.
     bind_exn (form_item f ''description'') (\<lambda>description'.
     bind_exn (budget_of pf (f ''budget'')) (\<lambda>budget'.
     bind_exn (next_days_of (f ''next_service_days'')) (\<lambda>next_days.
     bind_exn (next_date_of date_done' next_days) (\<lambda>next_date.
     Inr (trabajo \<lparr> date_done := date_done', description := description',
                    budget := budget', next_service_days := next_days,
                    next_service_date := next_date,
                    job_notes := notes_of (f ''notes'') \<rparr>)))))))"

definition trabajo_edit ::
  "platform \<Rightarrow> http_method \<Rightarrow> int \<Rightarrow> form \<Rightarrow> app \<Rightarrow> response \<times> app" where
  "trabajo_edit pf method trabajo_id f st =
     (case Job_get_by_id (db st) trabajo_id of
        Inl e \<Rightarrow> uncaught e st
      | Inr trabajo \<Rightarrow>
          if method = POST then
            (case trabajo_edit_job pf trabajo f of
               Inl e \<Rightarrow> uncaught e st
             | Inr j \<Rightarrow>
                 (case Equipment_get_by_id (db st) (job_equipment j) of
                    Inl e \<Rightarrow> uncaught e (st \<lparr> db := Job_save (db st) j \<rparr>)
                  | Inr equipo \<Rightarrow>
                      (([], Redirect (To_equipo_detail (eq_id equipo))),
                       st \<lparr> db := Job_save (db st) j \<rparr>)))
          else
            (case Equipment_get_by_id (db st) (job_equipment trabajo) of
               Inl e \<Rightarrow> uncaught e st
             | Inr equipo \<Rightarrow> (([], Render ''trabajo_form.html''), st)))"

text \<open>\<^verbatim>\<open>'/trabajos' in referer\<close>\<close>

fun contains :: "string \<Rightarrow> string \<Rightarrow> bool" where
  "contains [] sub = (sub = [])"
| "contains (c # cs) sub = (take (length sub) (c # cs) = sub \<or> contains cs sub)"

definition trabajo_delete :: "int \<Rightarrow> string \<Rightarrow> app \<Rightarrow> response \<times> app" where
  "trabajo_delete trabajo_id referer st =
     (case bind_exn (Job_get_by_id (db st) trabajo_id) (\<lambda>trabajo.
           bind_exn (Equipment_get_by_id (db st) (job_equipment trabajo)) (\<lambda>equipo.
           Inr (trabajo, eq_id equipo))) of
        Inl e \<Rightarrow> (([], Redirect To_trabajos_list), st)
      | Inr (trabajo, equipo_id) \<Rightarrow>
          (([], if contains referer ''/trabajos'' then Redirect To_trabajos_list
                else Redirect (To_equipo_detail equipo_id)),
           st \<lparr> db := Job_delete_instance (db st) trabajo \<rparr>))"

section \<open>Monthly spend\<close>

text \<open>
  The loop of \<^verbatim>\<open>estadisticas\<close> that fills \<^verbatim>\<open>gastos_mes\<close>, for
  \<^verbatim>\<open>i\<close> from 11 down to 0. \<open>fecha\<close> is the date of \<^verbatim>\<open>datetime.now()\<close> moved
  back by \<^verbatim>\<open>i*30\<close> days, \<open>mes_inicio\<close> its first day of month, and \<open>mes_fin\<close>
  today for \<^verbatim>\<open>i = 0\<close> and otherwise the day before the first of the month
  that lies 32 days after \<open>mes_inicio\<close>. The label of a bucket is the year
  and month of \<open>fecha\<close> (the source prints them with \<^verbatim>\<open>'%b %Y'\<close>). The
  clock is far from both ends of the calendar, so the arithmetic on today is
  written without the overflow of dates.
\<close>

record month_bucket =
  month :: "int \<times> int"
  total :: real

definition fecha_of :: "date \<Rightarrow> nat \<Rightarrow> date" where
  "fecha_of today i = today - int i * 30"

definition mes_inicio_of :: "date \<Rightarrow> nat \<Rightarrow> date" where
  "mes_inicio_of today i = replace_day1 (fecha_of today i)"

definition mes_fin_of :: "date \<Rightarrow> nat \<Rightarrow> date" where
  "mes_fin_of today i =
     (if i = 0 then today
      else (let siguiente_mes = mes_inicio_of today i + 32
            in replace_day1 siguiente_mes - 1))"

text \<open>\<^verbatim>\<open>Job.select(fn.SUM(Job.budget)).where(...).scalar() or 0\<close>\<close>

definition total_mes :: "database \<Rightarrow> date \<Rightarrow> date \<Rightarrow> real" where
  "total_mes d lo hi =
     sum_list (map budget (filter (\<lambda>j. lo \<le> date_done j \<and> date_done j \<le> hi) (job_rows d)))"

definition bucket_of :: "date \<Rightarrow> database \<Rightarrow> nat \<Rightarrow> month_bucket" where
  "bucket_of today d i =
     \<lparr> month = (case ord2ymd (fecha_of today i) of (y, m, _) \<Rightarrow> (y, m)),
       total = total_mes d (mes_inicio_of today i) (mes_fin_of today i) \<rparr>"

definition gastos_mes :: "date \<Rightarrow> database \<Rightarrow> exn + month_bucket list" where
  "gastos_mes today d =
     (if connected d then Inr (map (bucket_of today d) (rev [0..<12]))
      else Inl DatabaseError)"

section \<open>Auxiliary notions and example stores\<close>

text \<open>The forecast row of one equipment, when it has one: what one round of
  the loop of the upcoming services appends.\<close>

definition row_of :: "date \<Rightarrow> database \<Rightarrow> equipment \<Rightarrow> forecast_row option" where
  "row_of today d eq =
     (case last_job_of d eq of
        None \<Rightarrow> None
      | Some j \<Rightarrow>
          (case next_service_date j of
             None \<Rightarrow> None
           | Some nsd \<Rightarrow> Some (mk_row today eq j nsd)))"

text \<open>Equipment E1 (Bosch, no owner) with the jobs J1 and J2, and two more
  pieces of equipment: E2 with one job whose next service is far away, and E3
  without jobs.\<close>

definition E1 :: equipment where
  "E1 = \<lparr> eq_id = 1, marca = ''Bosch'', modelo = ''GSB'', anio = 2020, n_serie = ''S-1'',
          propietario = None, vehiculo = None, dominio = None, eq_notes = None \<rparr>"

definition E2 :: equipment where
  "E2 = \<lparr> eq_id = 2, marca = ''Makita'', modelo = ''HR'', anio = 2019, n_serie = ''S-2'',
          propietario = Some ''Ana'', vehiculo = None, dominio = None, eq_notes = None \<rparr>"

definition E3 :: equipment where
  "E3 = \<lparr> eq_id = 3, marca = ''Stihl'', modelo = ''MS'', anio = 2021, n_serie = ''S-3'',
          propietario = Some ''Bea'', vehiculo = None, dominio = None, eq_notes = None \<rparr>"

definition J1 :: job where
  "J1 = \<lparr> job_id = 1, job_equipment = 1, date_done = ymd2ord 2024 1 10,
          description = ''service'', budget = 100, next_service_days = Some 30,
          next_service_date = Some (ymd2ord 2024 1 10 + 30), job_notes = None \<rparr>"

definition J2 :: job where
  "J2 = \<lparr> job_id = 2, job_equipment = 1, date_done = ymd2ord 2024 2 1,
          description = ''repair'', budget = 50, next_service_days = Some 15,
          next_service_date = Some (ymd2ord 2024 2 1 + 15), job_notes = None \<rparr>"

definition J3 :: job where
  "J3 = \<lparr> job_id = 3, job_equipment = 2, date_done = ymd2ord 2024 2 1,
          description = ''check'', budget = 20, next_service_days = Some 50,
          next_service_date = Some (ymd2ord 2024 2 1 + 50), job_notes = None \<rparr>"

definition scenario_db :: database where
  "scenario_db = \<lparr> equipment_rows = [E1], job_rows = [J1, J2], connected = True \<rparr>"

definition workshop_db :: database where
  "workshop_db = \<lparr> equipment_rows = [E2, E3, E1], job_rows = [J1, J2, J3], connected = True \<rparr>"

definition down_db :: database where
  "down_db = \<lparr> equipment_rows = [E1], job_rows = [J1, J2], connected = False \<rparr>"

definition owners_db :: database where
  "owners_db = \<lparr> equipment_rows = [E1, E2, E3], job_rows = [J1, J2, J3], connected = True \<rparr>"

text \<open>Application states: a store that is down with an empty cache, and the
  store of the owners with both counts cached until time 600.\<close>

definition down_app :: app where
  "down_app = \<lparr> db = down_db, cache = Map.empty \<rparr>"

definition owners_app :: app where
  "owners_app =
     \<lparr> db = owners_db,
       cache = [Memo_equipment_count \<mapsto> (V_count 3, 600),
                Memo_jobs_count \<mapsto> (V_count 3, 600)] \<rparr>"

text \<open>A platform for the examples, a validator that accepts every form as it
  is, and the application with the store of the scenario and the job count
  cached until time 600.\<close>

definition example_platform :: platform where
  "example_platform =
     \<lparr> py_float = (\<lambda>s. if s = ''0'' then Inr 0 else if s = ''50'' then Inr 50 else Inl ValueError),
       sqlite_numeric = (\<lambda>s. None) \<rparr>"

definition accept_all :: "form \<Rightarrow> exn + form" where
  "accept_all f = Inr f"

definition scenario_app :: app where
  "scenario_app =
     \<lparr> db = scenario_db, cache = [Memo_jobs_count \<mapsto> (V_count 2, 600)] \<rparr>"

text \<open>Submitted forms: a job for equipment 1 done on 2024-02-01 with an
  interval of 15 days, the same with an interval of 0 days, and a job dated
  9999-12-31, the last day of the calendar.\<close>

definition job_form :: form where
  "job_form =
     [''equipo_id'' \<mapsto> ''1'', ''date_done'' \<mapsto> ''2024-02-01'',
      ''next_service_days'' \<mapsto> ''15'', ''description'' \<mapsto> ''oil'']"

definition zero_interval_form :: form where
  "zero_interval_form =
     [''equipo_id'' \<mapsto> ''1'', ''date_done'' \<mapsto> ''2024-02-01'',
      ''next_service_days'' \<mapsto> ''0'', ''description'' \<mapsto> ''oil'']"

definition far_future_form :: form where
  "far_future_form =
     [''equipo_id'' \<mapsto> ''1'', ''date_done'' \<mapsto> ''9999-12-31'',
      ''description'' \<mapsto> ''oil'']"

text \<open>A form for \<^verbatim>\<open>trabajo_new\<close> dated 2024-02-11, the row that the global
  endpoint builds from the form dated 9999-12-31, and job J2 edited with that
  form.\<close>

definition tomorrow_form :: form where
  "tomorrow_form =
     [''date_done'' \<mapsto> ''2024-02-11'', ''next_service_days'' \<mapsto> ''15'',
      ''description'' \<mapsto> ''oil'']"

definition far_future_job :: job where
  "far_future_job =
     \<lparr> job_id = 0, job_equipment = 1, date_done = MAXORDINAL, description = ''oil'',
       budget = 0, next_service_days = None, next_service_date = None, job_notes = None \<rparr>"

definition far_future_J2 :: job where
  "far_future_J2 =
     \<lparr> job_id = 2, job_equipment = 1, date_done = MAXORDINAL, description = ''oil'',
       budget = 0, next_service_days = None, next_service_date = None, job_notes = None \<rparr>"

section \<open>Properties of the upcoming services\<close>

lemma first_sort_key_least:
  assumes "first (sort_key f xs) = Some x"
  shows "x \<in> set xs \<and> (\<forall>y \<in> set xs. f x \<le> f y)"
proof -
  from assms obtain rest where eq: "sort_key f xs = x # rest"
    by (auto simp: first_def split: list.splits)
  have "sorted (map f (sort_key f xs))" by simp
  with eq have "\<forall>y \<in> set rest. f x \<le> f y" by simp
  moreover have "set xs = set (x # rest)" using eq set_sort[of f xs] by simp
  ultimately show ?thesis by auto
qed

lemma last_job_of_latest:
  assumes "last_job_of d eq = Some j"
  shows "j \<in> set (jobs_of d eq) \<and> (\<forall>j' \<in> set (jobs_of d eq). date_done j' \<le> date_done j)"
  using first_sort_key_least[of "\<lambda>j. - date_done j" "jobs_of d eq" j] assms
  by (simp add: last_job_of_def order_by_date_done_desc_def)

lemma last_job_of_None: "last_job_of d eq = None \<longleftrightarrow> jobs_of d eq = []"
proof -
  have "sort_key f xs = [] \<longleftrightarrow> xs = []" for f :: "job \<Rightarrow> int" and xs
    using length_sort[of f xs] by (metis length_0_conv)
  then show ?thesis
    by (auto simp: last_job_of_def order_by_date_done_desc_def first_def split: list.splits)
qed

lemma upcoming_loop_rows:
  "upcoming_services (upcoming_loop today d eqs acc)
     = upcoming_services acc @ List.map_filter (row_of today d) eqs"
  by (induction eqs arbitrary: acc)
     (auto simp: row_of_def List.map_filter_simps Let_def split: option.splits)

lemma upcoming_loop_total:
  "total_upcoming acc = length (filter (\<lambda>r. days_left r \<le> 30) (upcoming_services acc))
   \<Longrightarrow> total_upcoming (upcoming_loop today d eqs acc)
       = length (filter (\<lambda>r. days_left r \<le> 30)
                   (upcoming_services (upcoming_loop today d eqs acc)))"
proof (induction eqs arbitrary: acc)
  case Nil
  then show ?case by simp
next
  case (Cons eq eqs)
  show ?case
  proof (cases "row_of today d eq")
    case None
    then show ?thesis using Cons
      by (auto simp: row_of_def split: option.splits)
  next
    case (Some r)
    then obtain j nsd where j: "last_job_of d eq = Some j" "next_service_date j = Some nsd"
      by (auto simp: row_of_def split: option.splits)
    show ?thesis
      using j Cons.prems
      by (auto simp: Let_def mk_row_def intro!: Cons.IH)
  qed
qed

lemma body_rows:
  "set (upcoming_services (upcoming_services_body today d))
     = (if connected d
        then {r. \<exists>eq \<in> set (equipment_rows d). row_of today d eq = Some r} else {})"
  by (force simp: upcoming_services_body_def upcoming_try_def Equipment_select_def Let_def
       upcoming_loop_rows empty_upcoming_def List.map_filter_def image_iff)

lemma body_sorted:
  "sorted (map days_left (upcoming_services (upcoming_services_body today d)))"
  by (simp add: upcoming_services_body_def upcoming_try_def Equipment_select_def Let_def
       empty_upcoming_def)

lemma body_total:
  "total_upcoming (upcoming_services_body today d)
     = length (filter (\<lambda>r. days_left r \<le> 30)
                 (upcoming_services (upcoming_services_body today d)))"
  using upcoming_loop_total[of empty_upcoming today d "equipment_rows d"]
  by (simp add: upcoming_services_body_def upcoming_try_def Equipment_select_def Let_def
       empty_upcoming_def filter_sort)

lemma get_cached_upcoming_services_miss:
  "cache_get now (cache st) Memo_upcoming_services = None \<Longrightarrow>
   fst (get_cached_upcoming_services now today st)
     = Inr (V_upcoming (upcoming_services_body today (db st)))"
  by (simp add: get_cached_upcoming_services_def memoize_def)

lemma last_job_of_own:
  assumes "last_job_of d eq = Some j"
  shows "j \<in> set (job_rows d) \<and> job_equipment j = eq_id eq
     \<and> (\<forall>j' \<in> set (job_rows d). job_equipment j' = eq_id eq \<longrightarrow> date_done j' \<le> date_done j)"
  using last_job_of_latest[OF assms] by (auto simp: jobs_of_def)

lemma last_job_of_None_iff:
  "last_job_of d eq = None \<longleftrightarrow> (\<forall>j \<in> set (job_rows d). job_equipment j \<noteq> eq_id eq)"
  by (simp add: last_job_of_None jobs_of_def filter_empty_conv)

lemma length_map_filter:
  "length (List.map_filter f xs) = length (filter (\<lambda>x. f x \<noteq> None) xs)"
  by (simp add: List.map_filter_def)

lemma body_length:
  "connected d \<Longrightarrow>
   length (upcoming_services (upcoming_services_body today d))
     = length (filter (\<lambda>eq. case last_job_of d eq of
                               None \<Rightarrow> False
                             | Some j \<Rightarrow> next_service_date j \<noteq> None) (equipment_rows d))"
proof -
  have "(row_of today d eq \<noteq> None)
      = (case last_job_of d eq of None \<Rightarrow> False | Some j \<Rightarrow> next_service_date j \<noteq> None)" for eq
    by (simp add: row_of_def split: option.splits)
  then show "connected d \<Longrightarrow> ?thesis"
    by (simp add: upcoming_services_body_def upcoming_try_def Equipment_select_def Let_def
        upcoming_loop_rows empty_upcoming_def length_map_filter)
qed

text \<open>
  Claim C2, as the code has it. For every store and current date, every row of
  the list of upcoming services belongs to an equipment of the store that has
  at least one job: the row is built from a stored job of that equipment, its
  latest one, which carries a next service date; an equipment has no latest
  job exactly when no stored job refers to it. The list is sorted ascending by
  \<open>days_left\<close>. The list is not cut at 30 days: in a store that answers, every
  equipment whose latest job has a next service date has its row in the list,
  whatever the number of days left, and the list has as many rows as there
  are such equipment; \<open>total_upcoming\<close> is the number of rows of the list
  with at most 30 days left.
\<close>

theorem upcoming_services_rows_sorted_counted:
  "(\<forall>row \<in> set (upcoming_services (upcoming_services_body today d)).
      \<exists>eq j nsd. eq \<in> set (equipment_rows d) \<and> jobs_of d eq \<noteq> []
         \<and> j \<in> set (job_rows d) \<and> job_equipment j = eq_id eq
         \<and> last_job_of d eq = Some j \<and> next_service_date j = Some nsd
         \<and> row = mk_row today eq j nsd)
   \<and> sorted (map days_left (upcoming_services (upcoming_services_body today d)))
   \<and> total_upcoming (upcoming_services_body today d)
       = length (filter (\<lambda>row. days_left row \<le> 30)
                   (upcoming_services (upcoming_services_body today d)))
   \<and> (\<forall>eq. last_job_of d eq = None
          \<longleftrightarrow> (\<forall>j \<in> set (job_rows d). job_equipment j \<noteq> eq_id eq))
   \<and> (connected d \<longrightarrow>
        (\<forall>eq \<in> set (equipment_rows d). \<forall>j nsd.
            last_job_of d eq = Some j \<and> next_service_date j = Some nsd
            \<longrightarrow> mk_row today eq j nsd
                  \<in> set (upcoming_services (upcoming_services_body today d))
                \<and> days_left (mk_row today eq j nsd) = nsd - today))
   \<and> (connected d \<longrightarrow>
        length (upcoming_services (upcoming_services_body today d))
          = length (filter (\<lambda>eq. case last_job_of d eq of
                                    None \<Rightarrow> False
                                  | Some j \<Rightarrow> next_service_date j \<noteq> None)
                      (equipment_rows d)))"
proof (intro conjI ballI allI impI)
  fix row
  assume "row \<in> set (upcoming_services (upcoming_services_body today d))"
  then obtain eq where eq: "eq \<in> set (equipment_rows d)" "row_of today d eq = Some row"
    by (auto simp: body_rows split: if_splits)
  then obtain j nsd where j: "last_job_of d eq = Some j" "next_service_date j = Some nsd"
      "row = mk_row today eq j nsd"
    by (auto simp: row_of_def split: option.splits)
  from j(1) have "jobs_of d eq \<noteq> []"
    using last_job_of_None[of d eq] by simp
  moreover from last_job_of_own[OF j(1)]
  have "j \<in> set (job_rows d)" "job_equipment j = eq_id eq" by simp_all
  ultimately show "\<exists>eq j nsd. eq \<in> set (equipment_rows d) \<and> jobs_of d eq \<noteq> []
         \<and> j \<in> set (job_rows d) \<and> job_equipment j = eq_id eq
         \<and> last_job_of d eq = Some j \<and> next_service_date j = Some nsd
         \<and> row = mk_row today eq j nsd"
    using eq j by blast
next
  show "sorted (map days_left (upcoming_services (upcoming_services_body today d)))"
    by (rule body_sorted)
next
  show "total_upcoming (upcoming_services_body today d)
       = length (filter (\<lambda>row. days_left row \<le> 30)
                   (upcoming_services (upcoming_services_body today d)))"
    by (rule body_total)
next
  fix eq
  show "last_job_of d eq = None
          \<longleftrightarrow> (\<forall>j \<in> set (job_rows d). job_equipment j \<noteq> eq_id eq)"
    by (rule last_job_of_None_iff)
next
  fix eq j nsd
  assume c: "connected d" and e: "eq \<in> set (equipment_rows d)"
    and l: "last_job_of d eq = Some j \<and> next_service_date j = Some nsd"
  then have "row_of today d eq = Some (mk_row today eq j nsd)"
    by (simp add: row_of_def)
  with c e show "mk_row today eq j nsd
      \<in> set (upcoming_services (upcoming_services_body today d))"
    by (auto simp: body_rows)
  show "days_left (mk_row today eq j nsd) = nsd - today"
    by (simp add: mk_row_def)
next
  assume "connected d"
  then show "length (upcoming_services (upcoming_services_body today d))
          = length (filter (\<lambda>eq. case last_job_of d eq of
                                    None \<Rightarrow> False
                                  | Some j \<Rightarrow> next_service_date j \<noteq> None)
                      (equipment_rows d))"
    by (rule body_length)
qed

theorem upcoming_services_rows_sorted_counted_witness:
  "map days_left (upcoming_services (upcoming_services_body (ymd2ord 2024 2 10) workshop_db))
     = [6, 41]
   \<and> sorted (map days_left
        (upcoming_services (upcoming_services_body (ymd2ord 2024 2 10) workshop_db)))
   \<and> total_upcoming (upcoming_services_body (ymd2ord 2024 2 10) workshop_db) = 1
   \<and> filter (\<lambda>j. job_equipment j = eq_id E3) (job_rows workshop_db) = []
   \<and> last_job_of workshop_db E3 = None
   \<and> mk_row (ymd2ord 2024 2 10) E2 J3 (ymd2ord 2024 2 1 + 50)
        \<in> set (upcoming_services (upcoming_services_body (ymd2ord 2024 2 10) workshop_db))
   \<and> days_left (mk_row (ymd2ord 2024 2 10) E2 J3 (ymd2ord 2024 2 1 + 50)) = 41
   \<and> length (upcoming_services (upcoming_services_body (ymd2ord 2024 2 10) workshop_db)) = 2"
proof -
  let ?t = "ymd2ord 2024 2 10"
  note inst = upcoming_services_rows_sorted_counted[of ?t workshop_db]
  have rows: "map days_left (upcoming_services (upcoming_services_body ?t workshop_db)) = [6, 41]"
    by code_simp
  have none: "filter (\<lambda>j. job_equipment j = eq_id E3) (job_rows workshop_db) = []"
    by code_simp
  have c: "connected workshop_db" by code_simp
  have e2: "E2 \<in> set (equipment_rows workshop_db)" by (simp add: workshop_db_def)
  have l2: "last_job_of workshop_db E2 = Some J3" by code_simp
  have n2: "next_service_date J3 = Some (ymd2ord 2024 2 1 + 50)" by code_simp
  have d41: "ymd2ord 2024 2 1 + 50 - ?t = 41" by code_simp
  have cnt: "length (filter (\<lambda>eq. case last_job_of workshop_db eq of
                                    None \<Rightarrow> False
                                  | Some j \<Rightarrow> next_service_date j \<noteq> None)
                      (equipment_rows workshop_db)) = 2"
    by code_simp
  have f30: "length (filter (\<lambda>row. days_left row \<le> 30)
       (upcoming_services (upcoming_services_body ?t workshop_db))) = 1"
    by code_simp
  from inst have s: "sorted (map days_left
          (upcoming_services (upcoming_services_body ?t workshop_db)))"
    by blast
  from inst f30 have t: "total_upcoming (upcoming_services_body ?t workshop_db) = 1"
    by simp
  from inst none have l3: "last_job_of workshop_db E3 = None"
    by (simp add: filter_empty_conv)
  from inst c e2 l2 n2
  have m: "mk_row ?t E2 J3 (ymd2ord 2024 2 1 + 50)
        \<in> set (upcoming_services (upcoming_services_body ?t workshop_db))"
    and dl: "days_left (mk_row ?t E2 J3 (ymd2ord 2024 2 1 + 50)) = ymd2ord 2024 2 1 + 50 - ?t"
    by blast+
  from inst c cnt
  have len: "length (upcoming_services (upcoming_services_body ?t workshop_db)) = 2"
    by simp
  from rows s t none l3 m dl d41 len show ?thesis by simp
qed

text \<open>
  Claim C2 as it is written asks every row of the list to have at most 30 days
  left. The store of the workshop has a row with 41 days left.
\<close>

theorem upcoming_services_over_30_counterexample:
  "\<not> (\<forall>row \<in> set (upcoming_services (upcoming_services_body (ymd2ord 2024 2 10) workshop_db)).
        days_left row \<le> 30)"
proof -
  have "map days_left
      (upcoming_services (upcoming_services_body (ymd2ord 2024 2 10) workshop_db)) = [6, 41]"
    by code_simp
  then have "(41::int) \<in> days_left `
      set (upcoming_services (upcoming_services_body (ymd2ord 2024 2 10) workshop_db))"
    by (metis list.set_intros(1,2) list.set_map)
  then obtain row
    where "row \<in> set (upcoming_services (upcoming_services_body (ymd2ord 2024 2 10) workshop_db))"
      and "days_left row = 41"
    by auto
  then show ?thesis by fastforce
qed

text \<open>
  Claim C7. In a store that answers, an equipment has a latest job exactly when
  some stored job refers to it. That job is a stored job of this equipment
  (its foreign key is the id of the equipment) and has the greatest
  \<open>date_done\<close> among the stored jobs of this equipment. When it has a next
  service date, the forecast row built from it is in the list, with that
  date, with the budget of that job, with \<open>days_left\<close> the days from today to
  the date, and with the status of the tier rule: \<open>danger\<close> (overdue) below 0,
  \<open>warning\<close> (due soon) from 0 to 6, \<open>success\<close> (ok) otherwise. Every row of
  the list is the row of some equipment built from its own latest job. In the
  workshop, with three pieces of equipment, the Bosch E1 reports its job J2 as
  of 2024-02-10 (next service 2024-02-16, 6 days left, due soon, counted in
  \<open>total_upcoming\<close>), the Makita reports its own job, and the Stihl, without
  jobs, reports nothing; the store of the scenario, with E1 alone, gives the
  same row.
\<close>

theorem forecast_from_latest_job:
  assumes "connected d" and "eq \<in> set (equipment_rows d)"
  shows "(last_job_of d eq = None
            \<longleftrightarrow> (\<forall>j \<in> set (job_rows d). job_equipment j \<noteq> eq_id eq))
     \<and> (\<forall>j. last_job_of d eq = Some j \<longrightarrow>
           j \<in> set (job_rows d) \<and> job_equipment j = eq_id eq
           \<and> j \<in> set (jobs_of d eq)
           \<and> (\<forall>j' \<in> set (job_rows d).
                 job_equipment j' = eq_id eq \<longrightarrow> date_done j' \<le> date_done j)
           \<and> (\<forall>j' \<in> set (jobs_of d eq). date_done j' \<le> date_done j)
           \<and> (\<forall>nsd. next_service_date j = Some nsd \<longrightarrow>
                 mk_row today eq j nsd
                   \<in> set (upcoming_services (upcoming_services_body today d))
                 \<and> fr_date (mk_row today eq j nsd) = nsd
                 \<and> days_left (mk_row today eq j nsd) = nsd - today
                 \<and> fr_budget (mk_row today eq j nsd) = budget j
                 \<and> status (mk_row today eq j nsd)
                     = (if nsd - today < 0 then ''danger''
                        else if nsd - today < 7 then ''warning'' else ''success'')))
     \<and> (\<forall>row \<in> set (upcoming_services (upcoming_services_body today d)).
           \<exists>eq' j nsd. eq' \<in> set (equipment_rows d) \<and> last_job_of d eq' = Some j
              \<and> job_equipment j = eq_id eq' \<and> next_service_date j = Some nsd
              \<and> row = mk_row today eq' j nsd)"
proof (intro conjI allI impI ballI)
  show "last_job_of d eq = None
            \<longleftrightarrow> (\<forall>j \<in> set (job_rows d). job_equipment j \<noteq> eq_id eq)"
    by (rule last_job_of_None_iff)
next
  fix j assume l: "last_job_of d eq = Some j"
  from last_job_of_own[OF l]
  show "j \<in> set (job_rows d)" "job_equipment j = eq_id eq" by simp_all
  from last_job_of_latest[OF l]
  show "j \<in> set (jobs_of d eq)" by simp
next
  fix j j' assume l: "last_job_of d eq = Some j"
    and "j' \<in> set (job_rows d)" "job_equipment j' = eq_id eq"
  with last_job_of_own[OF l] show "date_done j' \<le> date_done j" by blast
next
  fix j j' assume l: "last_job_of d eq = Some j" and "j' \<in> set (jobs_of d eq)"
  with last_job_of_latest[OF l] show "date_done j' \<le> date_done j" by blast
next
  fix j nsd assume l: "last_job_of d eq = Some j" and n: "next_service_date j = Some nsd"
  then have "row_of today d eq = Some (mk_row today eq j nsd)"
    by (simp add: row_of_def)
  with assms show "mk_row today eq j nsd
      \<in> set (upcoming_services (upcoming_services_body today d))"
    by (auto simp: body_rows)
  show "fr_date (mk_row today eq j nsd) = nsd"
    "days_left (mk_row today eq j nsd) = nsd - today"
    "fr_budget (mk_row today eq j nsd) = budget j"
    "status (mk_row today eq j nsd)
       = (if nsd - today < 0 then ''danger''
          else if nsd - today < 7 then ''warning'' else ''success'')"
    by (simp_all add: mk_row_def status_of_def)
next
  fix row
  assume "row \<in> set (upcoming_services (upcoming_services_body today d))"
  then obtain eq' where eq: "eq' \<in> set (equipment_rows d)" "row_of today d eq' = Some row"
    by (auto simp: body_rows split: if_splits)
  then obtain j nsd where j: "last_job_of d eq' = Some j" "next_service_date j = Some nsd"
      "row = mk_row today eq' j nsd"
    by (auto simp: row_of_def split: option.splits)
  from last_job_of_own[OF j(1)] have "job_equipment j = eq_id eq'" by simp
  with eq j show "\<exists>eq' j nsd. eq' \<in> set (equipment_rows d) \<and> last_job_of d eq' = Some j
              \<and> job_equipment j = eq_id eq' \<and> next_service_date j = Some nsd
              \<and> row = mk_row today eq' j nsd"
    by blast
qed

theorem forecast_from_latest_job_witness:
  "last_job_of workshop_db E1 = Some J2
   \<and> job_equipment J2 = eq_id E1 \<and> job_equipment J3 = eq_id E2
   \<and> date_done J1 \<le> date_done J2
   \<and> last_job_of workshop_db E2 = Some J3
   \<and> last_job_of workshop_db E3 = None
   \<and> upcoming_services_body (ymd2ord 2024 2 10) workshop_db
       = \<lparr> upcoming_services =
             [\<lparr> fr_equipment = ''Bosch GSB (2020)'', fr_propietario = None,
                fr_date = ymd2ord 2024 2 16, days_left = 6, fr_budget = 50,
                status = ''warning'' \<rparr>,
              \<lparr> fr_equipment = ''Makita HR (2019)'', fr_propietario = Some ''Ana'',
                fr_date = ymd2ord 2024 3 22, days_left = 41, fr_budget = 20,
                status = ''success'' \<rparr>],
           total_upcoming = 1, services_vencidos = 0 \<rparr>
   \<and> upcoming_services_body (ymd2ord 2024 2 10) scenario_db
       = \<lparr> upcoming_services =
             [\<lparr> fr_equipment = ''Bosch GSB (2020)'', fr_propietario = None,
                fr_date = ymd2ord 2024 2 16, days_left = 6, fr_budget = 50,
                status = ''warning'' \<rparr>],
           total_upcoming = 1, services_vencidos = 0 \<rparr>
   \<and> mk_row (ymd2ord 2024 2 10) E1 J2 (ymd2ord 2024 2 16)
       \<in> set (upcoming_services (upcoming_services_body (ymd2ord 2024 2 10) workshop_db))
   \<and> status (mk_row (ymd2ord 2024 2 10) E1 J2 (ymd2ord 2024 2 16)) = ''warning''"
proof -
  let ?t = "ymd2ord 2024 2 10"
  have c: "connected workshop_db" by (simp add: workshop_db_def)
  have e1: "E1 \<in> set (equipment_rows workshop_db)"
    and e3: "E3 \<in> set (equipment_rows workshop_db)"
    by (simp_all add: workshop_db_def)
  have l1: "last_job_of workshop_db E1 = Some J2" by code_simp
  have l2: "last_job_of workshop_db E2 = Some J3" by code_simp
  have n: "next_service_date J2 = Some (ymd2ord 2024 2 16)" by code_simp
  have j3: "job_equipment J3 = eq_id E2" by code_simp
  have le: "date_done J1 \<le> date_done J2" by code_simp
  have none: "filter (\<lambda>j. job_equipment j = eq_id E3) (job_rows workshop_db) = []"
    by code_simp
  have six: "ymd2ord 2024 2 16 - ?t = 6" by code_simp
  have v: "upcoming_services_body ?t workshop_db
       = \<lparr> upcoming_services =
             [\<lparr> fr_equipment = ''Bosch GSB (2020)'', fr_propietario = None,
                fr_date = ymd2ord 2024 2 16, days_left = 6, fr_budget = 50,
                status = ''warning'' \<rparr>,
              \<lparr> fr_equipment = ''Makita HR (2019)'', fr_propietario = Some ''Ana'',
                fr_date = ymd2ord 2024 3 22, days_left = 41, fr_budget = 20,
                status = ''success'' \<rparr>],
           total_upcoming = 1, services_vencidos = 0 \<rparr>"
    by code_simp
  have w: "upcoming_services_body ?t scenario_db
       = \<lparr> upcoming_services =
             [\<lparr> fr_equipment = ''Bosch GSB (2020)'', fr_propietario = None,
                fr_date = ymd2ord 2024 2 16, days_left = 6, fr_budget = 50,
                status = ''warning'' \<rparr>],
           total_upcoming = 1, services_vencidos = 0 \<rparr>"
    by code_simp
  from forecast_from_latest_job[OF c e1, of ?t] l1 n
  have own: "job_equipment J2 = eq_id E1"
    and m: "mk_row ?t E1 J2 (ymd2ord 2024 2 16)
       \<in> set (upcoming_services (upcoming_services_body ?t workshop_db))"
    and st: "status (mk_row ?t E1 J2 (ymd2ord 2024 2 16))
       = (if ymd2ord 2024 2 16 - ?t < 0 then ''danger''
          else if ymd2ord 2024 2 16 - ?t < 7 then ''warning'' else ''success'')"
    by blast+
  from st six have st': "status (mk_row ?t E1 J2 (ymd2ord 2024 2 16)) = ''warning''"
    by simp
  from forecast_from_latest_job[OF c e3, of ?t] none
  have l3: "last_job_of workshop_db E3 = None"
    by (simp add: filter_empty_conv)
  from l1 own j3 le l2 l3 v w m st' show ?thesis by blast
qed

section \<open>Properties of the cached views and of the owner rename\<close>

text \<open>
  Claim C3, as the code has it. The handler of the exception is inside the
  memoized function, so the decorator sees an ordinary return value: when the
  aggregation raises on a miss, the view answers its empty shape, and that
  empty value is stored under the key of the view with the timeout of the view
  (300 seconds for the upcoming services, 1800 for the autocomplete
  vocabulary).
\<close>

theorem failed_computation_is_cached:
  "(upcoming_try today (db st) = Inl e
      \<and> cache_get now (cache st) Memo_upcoming_services = None
    \<longrightarrow> get_cached_upcoming_services now today st
          = (Inr (V_upcoming empty_upcoming),
             st \<lparr> cache := (cache st)(Memo_upcoming_services \<mapsto>
                                (V_upcoming empty_upcoming, now + 300)) \<rparr>))
   \<and> (autocomplete_try (db st) = Inl e'
      \<and> cache_get now (cache st) Memo_equipment_autocomplete = None
    \<longrightarrow> get_cached_equipment_autocomplete now st
          = (Inr (V_autocomplete empty_autocomplete),
             st \<lparr> cache := (cache st)(Memo_equipment_autocomplete \<mapsto>
                                (V_autocomplete empty_autocomplete, now + 1800)) \<rparr>))"
  by (simp add: get_cached_upcoming_services_def get_cached_equipment_autocomplete_def
      memoize_def upcoming_services_body_def equipment_autocomplete_body_def cache_set_def)

theorem failed_computation_is_cached_witness:
  "upcoming_try (ymd2ord 2024 2 10) (db down_app) = Inl DatabaseError
   \<and> autocomplete_try (db down_app) = Inl DatabaseError
   \<and> fst (get_cached_upcoming_services 0 (ymd2ord 2024 2 10) down_app)
       = Inr (V_upcoming empty_upcoming)
   \<and> cache (snd (get_cached_upcoming_services 0 (ymd2ord 2024 2 10) down_app))
         Memo_upcoming_services
       = Some (V_upcoming empty_upcoming, 300)
   \<and> fst (get_cached_equipment_autocomplete 0 down_app)
       = Inr (V_autocomplete empty_autocomplete)
   \<and> cache (snd (get_cached_equipment_autocomplete 0 down_app))
         Memo_equipment_autocomplete
       = Some (V_autocomplete empty_autocomplete, 1800)"
proof -
  have u: "upcoming_try (ymd2ord 2024 2 10) (db down_app) = Inl DatabaseError"
    by (simp add: upcoming_try_def Equipment_select_def down_app_def down_db_def)
  have a: "autocomplete_try (db down_app) = Inl DatabaseError"
    by (simp add: autocomplete_try_def Equipment_select_def down_app_def down_db_def)
  have m: "cache_get 0 (cache down_app) Memo_upcoming_services = None"
      "cache_get 0 (cache down_app) Memo_equipment_autocomplete = None"
    by (simp_all add: cache_get_def down_app_def)
  from failed_computation_is_cached[of "ymd2ord 2024 2 10" down_app DatabaseError 0 DatabaseError]
    u a m
  show ?thesis by simp
qed

text \<open>
  Claim C3 as it is written asks that the failed computation stores nothing.
  On a store that is down and an empty cache, the key of the upcoming services
  is set afterwards.
\<close>

theorem failed_computation_cached_counterexample:
  "upcoming_try (ymd2ord 2024 2 10) (db down_app) = Inl DatabaseError
   \<and> cache down_app Memo_upcoming_services = None
   \<and> cache (snd (get_cached_upcoming_services 0 (ymd2ord 2024 2 10) down_app))
         Memo_upcoming_services \<noteq> None"
  by (simp add: upcoming_try_def Equipment_select_def down_app_def down_db_def
      get_cached_upcoming_services_def memoize_def cache_get_def cache_set_def)

text \<open>
  Claim C4, as the code has it. A successful rename of an owner runs the
  invalidation of an equipment change: the entries of the equipment count, of
  the autocomplete vocabulary, of the upcoming services and of the dashboard
  are deleted. The entry of the job count and the other cached views are left
  as they were.
\<close>

theorem rename_clears_equipment_caches:
  assumes "fst (cliente_edit POST nombre f st) = ([(Cliente_actualizado n, ''success'')], a)"
  shows "cache (snd (cliente_edit POST nombre f st)) Memo_equipment_count = None
     \<and> cache (snd (cliente_edit POST nombre f st)) Memo_equipment_autocomplete = None
     \<and> cache (snd (cliente_edit POST nombre f st)) Memo_upcoming_services = None
     \<and> cache (snd (cliente_edit POST nombre f st)) (View ''/'') = None
     \<and> cache (snd (cliente_edit POST nombre f st)) Memo_jobs_count = cache st Memo_jobs_count
     \<and> (\<forall>p. p \<noteq> ''/'' \<longrightarrow>
           cache (snd (cliente_edit POST nombre f st)) (View p) = cache st (View p))"
  using assms
  by (auto simp: cliente_edit_def Let_def clear_cache_on_equipment_change_def cache_delete_def
      split: if_splits sum.splits)

theorem rename_clears_equipment_caches_witness:
  "fst (cliente_edit POST ''Ana'' [''nuevo_nombre'' \<mapsto> ''Carla''] owners_app)
     = ([(Cliente_actualizado 1, ''success'')], Redirect (To_cliente_detail ''Carla''))
   \<and> cache (snd (cliente_edit POST ''Ana'' [''nuevo_nombre'' \<mapsto> ''Carla''] owners_app))
        Memo_equipment_count = None
   \<and> cache (snd (cliente_edit POST ''Ana'' [''nuevo_nombre'' \<mapsto> ''Carla''] owners_app))
        Memo_jobs_count = Some (V_count 3, 600)"
proof -
  have r: "fst (cliente_edit POST ''Ana'' [''nuevo_nombre'' \<mapsto> ''Carla''] owners_app)
     = ([(Cliente_actualizado 1, ''success'')], Redirect (To_cliente_detail ''Carla''))"
    by code_simp
  have j: "cache owners_app Memo_jobs_count = Some (V_count 3, 600)"
    by (simp add: owners_app_def)
  from rename_clears_equipment_caches[OF r] r j show ?thesis by simp
qed

text \<open>
  Claim C4 as it is written asks that the equipment count stays cached. In the
  store of the owners it is a hit at time 10 before the rename of Ana to Carla
  and a miss at time 10 after it.
\<close>

theorem rename_deletes_equipment_count_counterexample:
  "fst (cliente_edit POST ''Ana'' [''nuevo_nombre'' \<mapsto> ''Carla''] owners_app)
     = ([(Cliente_actualizado 1, ''success'')], Redirect (To_cliente_detail ''Carla''))
   \<and> cache_get 10 (cache owners_app) Memo_equipment_count = Some (V_count 3)
   \<and> cache_get 10
        (cache (snd (cliente_edit POST ''Ana'' [''nuevo_nombre'' \<mapsto> ''Carla''] owners_app)))
        Memo_equipment_count = None"
  by code_simp

text \<open>
  Claim C5, as the code has it. The new name is the submitted one with the
  white space at both ends removed. An empty new name is rejected as required,
  and a new name equal to the old one is answered as unchanged; both leave the
  state as it was. For a new name that is neither, on a store that answers:
  when some equipment already has the new name as owner the request is
  rejected with the conflict message and the state is unchanged; otherwise
  every row whose owner is the old name gets the new name, every other row
  and every job is unchanged, and the number of rows with the old name is
  reported.
\<close>

theorem rename_owner_cases:
  assumes "nuevo = strip (form_get f ''nuevo_nombre'' '''')"
  shows "(nuevo = [] \<longrightarrow>
            cliente_edit POST nombre f st
              = (([(Nombre_requerido, ''error'')], Redirect (To_cliente_edit nombre)), st))
     \<and> (nuevo \<noteq> [] \<and> nuevo = nombre \<longrightarrow>
            cliente_edit POST nombre f st
              = (([(Nombre_no_ha_cambiado, ''info'')], Redirect (To_cliente_detail nombre)), st))
     \<and> (nuevo \<noteq> [] \<and> nuevo \<noteq> nombre \<and> connected (db st)
          \<and> rows_with_owner nuevo (equipment_rows (db st)) \<noteq> [] \<longrightarrow>
            cliente_edit POST nombre f st
              = (([(Ya_existe_cliente, ''error'')], Redirect (To_cliente_edit nombre)), st))
     \<and> (nuevo \<noteq> [] \<and> nuevo \<noteq> nombre \<and> connected (db st)
          \<and> rows_with_owner nuevo (equipment_rows (db st)) = [] \<longrightarrow>
            fst (cliente_edit POST nombre f st)
              = ([(Cliente_actualizado (length (rows_with_owner nombre
                      (equipment_rows (db st)))), ''success'')],
                 Redirect (To_cliente_detail nuevo))
            \<and> equipment_rows (db (snd (cliente_edit POST nombre f st)))
              = map (\<lambda>eq. if propietario eq = Some nombre
                           then eq \<lparr> propietario := Some nuevo \<rparr> else eq)
                    (equipment_rows (db st))
            \<and> job_rows (db (snd (cliente_edit POST nombre f st))) = job_rows (db st))"
  using assms
  by (simp add: cliente_edit_def Let_def Equipment_select_def update_propietario_def)

theorem rename_owner_cases_witness:
  "cliente_edit POST ''Ana'' [''nuevo_nombre'' \<mapsto> ''Bea''] owners_app
     = (([(Ya_existe_cliente, ''error'')], Redirect (To_cliente_edit ''Ana'')), owners_app)
   \<and> fst (cliente_edit POST ''Ana'' [''nuevo_nombre'' \<mapsto> '' Carla ''] owners_app)
     = ([(Cliente_actualizado 1, ''success'')], Redirect (To_cliente_detail ''Carla''))
   \<and> map propietario (equipment_rows (db
        (snd (cliente_edit POST ''Ana'' [''nuevo_nombre'' \<mapsto> '' Carla ''] owners_app))))
     = [None, Some ''Carla'', Some ''Bea'']
   \<and> cliente_edit POST ''Ana'' [''nuevo_nombre'' \<mapsto> ''  ''] owners_app
     = (([(Nombre_requerido, ''error'')], Redirect (To_cliente_edit ''Ana'')), owners_app)"
proof -
  have s1: "''Bea'' = strip (form_get [''nuevo_nombre'' \<mapsto> ''Bea''] ''nuevo_nombre'' '''')"
    and s2: "''Carla'' = strip (form_get [''nuevo_nombre'' \<mapsto> '' Carla ''] ''nuevo_nombre'' '''')"
    and s3: "[] = strip (form_get [''nuevo_nombre'' \<mapsto> ''  ''] ''nuevo_nombre'' '''')"
    by code_simp+
  have c: "connected (db owners_app)" by code_simp
  have b: "rows_with_owner ''Bea'' (equipment_rows (db owners_app)) \<noteq> []" by code_simp
  have n: "rows_with_owner ''Carla'' (equipment_rows (db owners_app)) = []" by code_simp
  have k: "length (rows_with_owner ''Ana'' (equipment_rows (db owners_app))) = 1" by code_simp
  have m: "map propietario (map (\<lambda>eq. if propietario eq = Some ''Ana''
                           then eq \<lparr> propietario := Some ''Carla'' \<rparr> else eq)
                    (equipment_rows (db owners_app))) = [None, Some ''Carla'', Some ''Bea'']"
    by (simp add: owners_app_def owners_db_def E1_def E2_def E3_def)
  from rename_owner_cases[OF s1, of "''Ana''" owners_app] c b
  have 1: "cliente_edit POST ''Ana'' [''nuevo_nombre'' \<mapsto> ''Bea''] owners_app
     = (([(Ya_existe_cliente, ''error'')], Redirect (To_cliente_edit ''Ana'')), owners_app)"
    by simp
  from rename_owner_cases[OF s2, of "''Ana''" owners_app] c n k m
  have 2: "fst (cliente_edit POST ''Ana'' [''nuevo_nombre'' \<mapsto> '' Carla ''] owners_app)
     = ([(Cliente_actualizado 1, ''success'')], Redirect (To_cliente_detail ''Carla''))"
    and 3: "map propietario (equipment_rows (db
        (snd (cliente_edit POST ''Ana'' [''nuevo_nombre'' \<mapsto> '' Carla ''] owners_app))))
     = [None, Some ''Carla'', Some ''Bea'']"
    by simp_all
  from rename_owner_cases[OF s3, of "''Ana''" owners_app]
  have 4: "cliente_edit POST ''Ana'' [''nuevo_nombre'' \<mapsto> ''  ''] owners_app
     = (([(Nombre_requerido, ''error'')], Redirect (To_cliente_edit ''Ana'')), owners_app)"
    by simp
  from 1 2 3 4 show ?thesis by blast
qed

text \<open>
  Claim C5 as it is written asks for the conflict error whenever some equipment
  has the new name as owner. Renaming Ana to Ana, with equipment owned by Ana,
  is answered as unchanged, which is not the conflict answer.
\<close>

theorem rename_to_same_name_counterexample:
  "rows_with_owner ''Ana'' (equipment_rows (db owners_app)) \<noteq> []
   \<and> fst (cliente_edit POST ''Ana'' [''nuevo_nombre'' \<mapsto> ''Ana''] owners_app)
       = ([(Nombre_no_ha_cambiado, ''info'')], Redirect (To_cliente_detail ''Ana''))
   \<and> fst (cliente_edit POST ''Ana'' [''nuevo_nombre'' \<mapsto> ''Ana''] owners_app)
       \<noteq> ([(Ya_existe_cliente, ''error'')], Redirect (To_cliente_edit ''Ana''))"
  by code_simp

text \<open>
  Claim C10. When the new name, after the white space at its ends is removed,
  equals the name in the address, the request is answered with the message
  that the name has not changed and a redirect to the page of the owner: no
  row is updated, no cache key is deleted and no conflict is signalled,
  whether or not equipment with that owner exists. The name in the address is
  never empty.
\<close>

theorem rename_to_current_name_noop:
  assumes "strip (form_get f ''nuevo_nombre'' '''') = nombre" and "nombre \<noteq> []"
  shows "cliente_edit POST nombre f st
     = (([(Nombre_no_ha_cambiado, ''info'')], Redirect (To_cliente_detail nombre)), st)"
  using assms by (simp add: cliente_edit_def Let_def)

theorem rename_to_current_name_noop_witness:
  "rows_with_owner ''Bea'' (equipment_rows (db owners_app)) \<noteq> []
   \<and> cliente_edit POST ''Bea'' [''nuevo_nombre'' \<mapsto> ''Bea ''] owners_app
     = (([(Nombre_no_ha_cambiado, ''info'')], Redirect (To_cliente_detail ''Bea'')), owners_app)"
proof -
  have s: "strip (form_get [''nuevo_nombre'' \<mapsto> ''Bea ''] ''nuevo_nombre'' '''') = ''Bea''"
    by code_simp
  have b: "rows_with_owner ''Bea'' (equipment_rows (db owners_app)) \<noteq> []" by code_simp
  from rename_to_current_name_noop[OF s, of owners_app] b show ?thesis by simp
qed

section \<open>Properties of the job endpoints\<close>

text \<open>None of the four job endpoints touches the cache, whatever the request
  and whatever its outcome.\<close>

lemma job_endpoints_leave_cache:
  "cache (snd (trabajo_new_global pf m f st)) = cache st"
  "cache (snd (trabajo_new pf v today m i f st)) = cache st"
  "cache (snd (trabajo_edit pf m i f st)) = cache st"
  "cache (snd (trabajo_delete i referer st)) = cache st"
  by (auto simp: trabajo_new_global_def trabajo_new_def trabajo_edit_def trabajo_delete_def
      uncaught_def split: sum.splits prod.splits)

text \<open>
  Claim C1 at a concrete request. The store of the scenario has two jobs and
  the job count 2 is cached until time 600. Creating a job through the global
  endpoint succeeds and the store has three jobs, while the entry of the job
  count is still there: the cached count read at time 10 answers 2. The
  invalidation \<open>clear_cache_on_job_change\<close> is not run by the endpoint.
\<close>

theorem job_write_keeps_stale_count:
  "length (job_rows (db scenario_app)) = 2
   \<and> fst (trabajo_new_global example_platform POST job_form scenario_app)
       = ([], Redirect To_trabajos_list)
   \<and> length (job_rows (db (snd (trabajo_new_global example_platform POST job_form
        scenario_app)))) = 3
   \<and> cache (snd (trabajo_new_global example_platform POST job_form scenario_app))
        Memo_jobs_count = Some (V_count 2, 600)
   \<and> fst (get_cached_jobs_count 10
        (snd (trabajo_new_global example_platform POST job_form scenario_app)))
       = Inr (V_count 2)"
  by code_simp

text \<open>The next service date of a row built by a job endpoint: absent without
  an interval and with the interval 0, the date of the job plus the interval
  otherwise.\<close>

lemma next_date_of_cases:
  "next_date_of d nd = Inr x \<Longrightarrow>
     (nd = None \<longrightarrow> x = None) \<and> (nd = Some 0 \<longrightarrow> x = None)
     \<and> (\<forall>n. nd = Some n \<and> n \<noteq> 0 \<longrightarrow> x = Some (d + n))"
  by (auto simp: next_date_of_def bind_exn_def date_add_def split: option.splits if_splits)

lemma bind_exn_Inr:
  "bind_exn x f = Inr y \<longleftrightarrow> (\<exists>v. x = Inr v \<and> f v = Inr y)"
  by (cases x) (simp_all add: bind_exn_def)

lemma global_job_fields:
  assumes "trabajo_new_global_job pf d f = Inr j"
  shows "\<exists>ds. f ''date_done'' = Some ds \<and> strptime_ymd ds = Inr (date_done j)
           \<and> next_date_of (date_done j) (next_service_days j) = Inr (next_service_date j)"
  using assms
  by (auto simp: trabajo_new_global_job_def bind_exn_Inr form_item_def or_raise_def
      split: option.splits)

lemma edit_job_fields:
  assumes "trabajo_edit_job pf t f = Inr j"
  shows "\<exists>ds. f ''date_done'' = Some ds \<and> strptime_ymd ds = Inr (date_done j)
           \<and> next_date_of (date_done j) (next_service_days j) = Inr (next_service_date j)"
  using assms
  by (auto simp: trabajo_edit_job_def bind_exn_Inr form_item_def or_raise_def
      split: option.splits)

lemma new_job_fields:
  assumes "trabajo_new_try pf v today equipo f = (fl, Inr j)"
  shows "date_done j \<le> today
           \<and> next_date_of (date_done j) (next_service_days j) = Inr (next_service_date j)"
  using assms
  by (auto simp: trabajo_new_try_def bind_exn_Inr split: sum.splits prod.splits if_splits)

lemma stored_jobs_next_date:
  "(trabajo_new_global_job pf d f = Inr j \<or> trabajo_edit_job pf t f = Inr j
      \<or> trabajo_new_try pf v today equipo f = (fl, Inr j)) \<Longrightarrow>
   (next_service_days j = None \<longrightarrow> next_service_date j = None)
   \<and> (next_service_days j = Some 0 \<longrightarrow> next_service_date j = None)
   \<and> (\<forall>n. next_service_days j = Some n \<and> n \<noteq> 0
          \<longrightarrow> next_service_date j = Some (date_done j + n))"
  using global_job_fields[of pf d f j] edit_job_fields[of pf t f j]
    new_job_fields[of pf v today equipo f fl j]
    next_date_of_cases[of "date_done j" "next_service_days j" "next_service_date j"]
  by blast

text \<open>
  Claim C8 at a concrete request. A job submitted with the interval 0, through
  the global endpoint or through the edit of job 2, is stored with the
  interval 0 and without a next service date, where the claim asks for the
  date of the job plus the interval.
\<close>

theorem zero_interval_job_has_no_next_date:
  "map (\<lambda>j. (next_service_days j, next_service_date j))
     (job_rows (db (snd (trabajo_new_global example_platform POST zero_interval_form
        scenario_app))))
     = [(Some 30, Some (ymd2ord 2024 1 10 + 30)),
        (Some 15, Some (ymd2ord 2024 2 1 + 15)),
        (Some 0, None)]
   \<and> map (\<lambda>j. (next_service_days j, next_service_date j))
     (job_rows (db (snd (trabajo_edit example_platform POST 2 zero_interval_form
        scenario_app))))
     = [(Some 30, Some (ymd2ord 2024 1 10 + 30)),
        (Some 0, None)]"
  by code_simp

text \<open>
  Claim C9. In \<^verbatim>\<open>trabajo_new\<close>, when the equipment exists and the date that
  the endpoint reads (the field \<open>date_done\<close> of the dictionary the validator
  returns) parses to a date after today, the request is answered with the
  message of the future date and the validation error, and the state is
  unchanged: no job is created. The global endpoint and the edit endpoint do
  not look at the current date: whenever their fields convert, the job is
  created or saved with the parsed date, also when it is after today.
\<close>

theorem future_date_checked_only_by_trabajo_new:
  "(Equipment_get_by_id (db st) equipo_id = Inr equipo
      \<and> validate_job_data (form_data f) = Inr vd
      \<and> vd ''date_done'' = Some ds \<and> strptime_ymd ds = Inr d \<and> today < d
    \<longrightarrow> trabajo_new pf validate_job_data today POST equipo_id f st
          = (([(Fecha_futura, ''error''), (Error_de_validacion, ''error'')],
               Render ''trabajo_form.html''), st))
   \<and> (trabajo_new_global_job pf (db st) g = Inr j
      \<and> g ''date_done'' = Some gs \<and> strptime_ymd gs = Inr gd \<and> today < gd
    \<longrightarrow> date_done j = gd
        \<and> trabajo_new_global pf POST g st
          = (([], Redirect To_trabajos_list), st \<lparr> db := Job_create (db st) j \<rparr>))
   \<and> (Job_get_by_id (db st) trabajo_id = Inr trabajo
      \<and> trabajo_edit_job pf trabajo h = Inr j'
      \<and> h ''date_done'' = Some es \<and> strptime_ymd es = Inr ed \<and> today < ed
    \<longrightarrow> date_done j' = ed
        \<and> db (snd (trabajo_edit pf POST trabajo_id h st)) = Job_save (db st) j')"
proof (intro conjI impI)
  assume a: "Equipment_get_by_id (db st) equipo_id = Inr equipo
      \<and> validate_job_data (form_data f) = Inr vd
      \<and> vd ''date_done'' = Some ds \<and> strptime_ymd ds = Inr d \<and> today < d"
  then have "trabajo_new_try pf validate_job_data today equipo f
      = ([(Fecha_futura, ''error'')], Inl ValidationError)"
    by (simp add: trabajo_new_try_def bind_exn_def dict_item_def or_raise_def)
  with a show "trabajo_new pf validate_job_data today POST equipo_id f st
          = (([(Fecha_futura, ''error''), (Error_de_validacion, ''error'')],
               Render ''trabajo_form.html''), st)"
    by (simp add: trabajo_new_def)
next
  assume b: "trabajo_new_global_job pf (db st) g = Inr j
      \<and> g ''date_done'' = Some gs \<and> strptime_ymd gs = Inr gd \<and> today < gd"
  with global_job_fields[of pf "db st" g j] show "date_done j = gd" by auto
  from b show "trabajo_new_global pf POST g st
          = (([], Redirect To_trabajos_list), st \<lparr> db := Job_create (db st) j \<rparr>)"
    by (simp add: trabajo_new_global_def)
next
  assume c: "Job_get_by_id (db st) trabajo_id = Inr trabajo
      \<and> trabajo_edit_job pf trabajo h = Inr j'
      \<and> h ''date_done'' = Some es \<and> strptime_ymd es = Inr ed \<and> today < ed"
  with edit_job_fields[of pf trabajo h j'] show "date_done j' = ed" by auto
  from c show "db (snd (trabajo_edit pf POST trabajo_id h st)) = Job_save (db st) j'"
    by (simp add: trabajo_edit_def uncaught_def split: sum.splits)
qed

theorem future_date_checked_only_by_trabajo_new_witness:
  "ymd2ord 2024 2 10 < ymd2ord 2024 2 11 \<and> ymd2ord 2024 2 10 < MAXORDINAL
   \<and> trabajo_new example_platform accept_all (ymd2ord 2024 2 10) POST 1 tomorrow_form
        scenario_app
       = (([(Fecha_futura, ''error''), (Error_de_validacion, ''error'')],
            Render ''trabajo_form.html''), scenario_app)
   \<and> date_done far_future_job = MAXORDINAL
   \<and> trabajo_new_global example_platform POST far_future_form scenario_app
       = (([], Redirect To_trabajos_list),
          scenario_app \<lparr> db := Job_create (db scenario_app) far_future_job \<rparr>)
   \<and> date_done far_future_J2 = MAXORDINAL
   \<and> db (snd (trabajo_edit example_platform POST 2 far_future_form scenario_app))
       = Job_save (db scenario_app) far_future_J2"
proof -
  have t1: "ymd2ord 2024 2 10 < ymd2ord 2024 2 11" and t2: "ymd2ord 2024 2 10 < MAXORDINAL"
    by code_simp+
  have a1: "Equipment_get_by_id (db scenario_app) 1 = Inr E1" by code_simp
  have a2: "accept_all (form_data tomorrow_form) = Inr (form_data tomorrow_form)"
    by (simp add: accept_all_def)
  have a3: "form_data tomorrow_form ''date_done'' = Some ''2024-02-11''" by code_simp
  have a4: "strptime_ymd ''2024-02-11'' = Inr (ymd2ord 2024 2 11)" by code_simp
  have b1: "trabajo_new_global_job example_platform (db scenario_app) far_future_form
      = Inr far_future_job" by code_simp
  have b2: "far_future_form ''date_done'' = Some ''9999-12-31''" by code_simp
  have b3: "strptime_ymd ''9999-12-31'' = Inr MAXORDINAL" by code_simp
  have c1: "Job_get_by_id (db scenario_app) 2 = Inr J2" by code_simp
  have c2: "trabajo_edit_job example_platform J2 far_future_form = Inr far_future_J2"
    by code_simp
  from future_date_checked_only_by_trabajo_new[where st = scenario_app and equipo_id = 1
      and equipo = E1 and validate_job_data = accept_all and f = tomorrow_form
      and vd = "form_data tomorrow_form" and ds = "''2024-02-11''"
      and d = "ymd2ord 2024 2 11" and today = "ymd2ord 2024 2 10"
      and pf = example_platform and g = far_future_form and j = far_future_job
      and gs = "''9999-12-31''" and gd = MAXORDINAL and trabajo_id = 2 and trabajo = J2
      and h = far_future_form and j' = far_future_J2 and es = "''9999-12-31''"
      and ed = MAXORDINAL]
    t1 t2 a1 a2 a3 a4 b1 b2 b3 c1 c2
  show ?thesis by simp
qed

section \<open>Properties of the monthly spend\<close>

lemma gastos_mes_length:
  "gastos_mes today d = Inr bs \<Longrightarrow> length bs = 12"
  by (auto simp: gastos_mes_def split: if_splits)

text \<open>
  Claim C6 at a concrete date. As of 2024-03-31 the dates \<open>fecha\<close> of the last
  four rounds are 2024-01-01, 2024-01-31, 2024-03-01 and 2024-03-31: the
  buckets of January 2024 and of March 2024 come twice and February 2024 has
  no bucket. With the jobs of the workshop (100 on 2024-01-10, 50 and 20 on
  2024-02-01) the twelve totals add up to 200, while the jobs from the start
  of the first bucket to today cost 170. The starts of the buckets do not
  advance by one calendar month each, and the totals do not add up to the
  cost of the jobs of the window.
\<close>

theorem monthly_buckets_skip_and_repeat:
  "map (fecha_of (ymd2ord 2024 3 31)) [3, 2, 1, 0]
     = [ymd2ord 2024 1 1, ymd2ord 2024 1 31, ymd2ord 2024 3 1, ymd2ord 2024 3 31]
   \<and> map (mes_inicio_of (ymd2ord 2024 3 31)) [3, 2, 1, 0]
     = [ymd2ord 2024 1 1, ymd2ord 2024 1 1, ymd2ord 2024 3 1, ymd2ord 2024 3 1]
   \<and> map (mes_fin_of (ymd2ord 2024 3 31)) [3, 2, 1, 0]
     = [ymd2ord 2024 1 31, ymd2ord 2024 1 31, ymd2ord 2024 3 31, ymd2ord 2024 3 31]
   \<and> gastos_mes (ymd2ord 2024 3 31) workshop_db
     = Inr [\<lparr> month = (2023, 5), total = 0 \<rparr>, \<lparr> month = (2023, 6), total = 0 \<rparr>,
            \<lparr> month = (2023, 7), total = 0 \<rparr>, \<lparr> month = (2023, 8), total = 0 \<rparr>,
            \<lparr> month = (2023, 9), total = 0 \<rparr>, \<lparr> month = (2023, 10), total = 0 \<rparr>,
            \<lparr> month = (2023, 11), total = 0 \<rparr>, \<lparr> month = (2023, 12), total = 0 \<rparr>,
            \<lparr> month = (2024, 1), total = 100 \<rparr>, \<lparr> month = (2024, 1), total = 100 \<rparr>,
            \<lparr> month = (2024, 3), total = 0 \<rparr>, \<lparr> month = (2024, 3), total = 0 \<rparr>]
   \<and> total_mes workshop_db (mes_inicio_of (ymd2ord 2024 3 31) 11) (ymd2ord 2024 3 31) = 170"
  by code_simp

end
